theory Spec2Isabelle
  imports Complex_Main
begin

section \<open>Sensor acquisition and GPS tasks of the gluonpilot firmware\<close>

text \<open>
  A shallow embedding of \<^verbatim>\<open>Firmware/rtos_pilot/sensors.c\<close>. The two FreeRTOS tasks
  \<^verbatim>\<open>sensors_task\<close> and \<^verbatim>\<open>sensors_gps_task\<close> become functions on one record holding the
  globals both tasks share (\<^verbatim>\<open>sensor_data\<close>, \<^verbatim>\<open>scale_z_gyro\<close>), the local variables of each
  task, and a chronological log of the calls made to drivers and to the kernel. One call of
  \<open>sensors_tick\<close> is one pass through the body of the endless loop of \<^verbatim>\<open>sensors_task\<close>, one
  call of \<open>gps_cycle\<close> one pass through the loop of \<^verbatim>\<open>sensors_gps_task\<close>. What the drivers
  and the other tasks answer during a pass is an argument of the pass.

  Conventions of the model.
  \<^item> C \<^verbatim>\<open>float\<close> is the IEEE 754 binary32 format. A value of the type is the \<open>real\<close> it
    stands for, and every operation is the exact one followed by rounding to the nearest
    binary32 value, ties to the even mantissa (\<open>f32\<close>); a constant of the source is its decimal
    rounded in the same way, also where the compiler folds an expression of constants.
    \<^verbatim>\<open>double\<close> is the same 32-bit type, which is the default of the compiler for the dsPIC.
    Overflow to an infinity, NaN and the sign of zero are not modelled. What a driver or the
    configuration hands over as a \<^verbatim>\<open>float\<close> is taken as it is.
  \<^item> \<^verbatim>\<open>unsigned int\<close> is 16 bits wide on the dsPIC the file is written for; the counter is a
    \<open>nat\<close> with the reduction modulo \<open>2 ^ 16\<close> written out.
  \<^item> \<^verbatim>\<open>int\<close> is 16 bits wide as well; signed arithmetic is an \<open>int\<close> wrapped into
    \<open>-32768 .. 32767\<close> (what the target does where ISO C leaves overflow undefined), and
    \<^verbatim>\<open>%\<close> truncates towards zero.
  \<^item> The headers \<^verbatim>\<open>sensors.h\<close>, \<^verbatim>\<open>gps.h\<close> and \<^verbatim>\<open>control.h\<close> are not part of the sources at hand.
    The records below have the fields that \<^verbatim>\<open>sensors.c\<close> reads or writes; raw samples and
    the satellite count are integers, every field used in \<^verbatim>\<open>float\<close> arithmetic is a \<open>real\<close>,
    the magnetometer sample is a triple.
  \<^item> The preprocessor symbols \<^verbatim>\<open>ENABLE_QUADROCOPTER\<close> and \<^verbatim>\<open>F1E_STEERING\<close> are fields of the
    environment: \<open>None\<close> when not defined, \<open>Some v\<close> when defined as \<open>v\<close>.
\<close>

subsection \<open>Data\<close>

datatype gps_status = EMPTY | VOID | ACTIVE

record gps_info =
  status :: gps_status
  latitude_rad :: real
  longitude_rad :: real
  speed_ms :: real
  satellites_in_view :: int

record SensorData =
  acc_x_raw :: int
  acc_y_raw :: int
  acc_z_raw :: int
  gyro_x_raw :: int
  gyro_y_raw :: int
  gyro_z_raw :: int
  idg500_vref :: int
  acc_x :: real
  acc_y :: real
  acc_z :: real
  p :: real
  q :: real
  r :: real
  battery_voltage_10 :: real
  temperature_10 :: int
  temperature :: real
  pressure :: real
  pressure_height :: real
  vertical_speed :: real
  magnetometer_raw :: "int \<times> int \<times> int"
  gps :: gps_info

record SensorConfig =
  acc_x_neutral :: real
  acc_y_neutral :: real
  acc_z_neutral :: real
  gyro_x_neutral :: real
  gyro_y_neutral :: real
  gyro_z_neutral :: real

record ControlConfig =
  cruising_speed_ms :: real

record Configuration =
  sensors :: SensorConfig
  control :: ControlConfig

text \<open>The hardware generations of \<^verbatim>\<open>configuration.h\<close>.\<close>

definition V01J :: int where "V01J = 1"
definition V01N :: int where "V01N = 2"
definition V01O :: int where "V01O = 3"

text \<open>
  Calls that leave the task: drivers, the kernel, the other collaborators. A delay and the
  wait for a semaphore carry the milliseconds the source writes, before their division by
  \<^verbatim>\<open>portTICK_RATE_MS\<close>; the channel of the ADC is kept, and so is the step handed to the
  attitude filter, as the decimal the source writes.
\<close>

datatype event =
    Uart1Puts
  | I2cInit
  | Hmc5843Init
  | AdcOpen
  | Bmp085Init
  | Scp1000Init
  | AhrsInit
  | TaskDelay int
  | TaskDelayUntil int
  | AdcGetChannel nat
  | AdcStart
  | TaskDelete
  | Bmp085ReadTemp
  | Bmp085StartConvertPressure
  | Bmp085ReadPressure
  | Bmp085StartConvertTemp
  | Scp1000DataReady
  | SpiSemaphoreTake int
  | Scp1000GetPressure
  | Scp1000GetTemperature
  | SpiSemaphoreGive
  | Hmc5843Read
  | AhrsFilter real
  | GluonscriptInit
  | GpsOpenPort
  | GpsValidFramesReceiving
  | GpsConfigOutput
  | GpsSemaphoreTake int
  | GpsUpdateInfo
  | Led2Off
  | Led2On
  | GluonscriptDo

text \<open>
  What is fixed for a run: the build, the detected hardware generation, the loaded
  configuration, and the conversion functions of the barometer drivers, which this file only
  calls.
\<close>

record env =
  ENABLE_QUADROCOPTER :: "int option"
  F1E_STEERING :: "int option"
  HARDWARE_VERSION :: int
  config :: Configuration
  scp1000_pressure_to_height :: "real \<Rightarrow> real \<Rightarrow> real"
  bmp085_convert_temp :: "int \<Rightarrow> int"
  bmp085_convert_pressure :: "int \<Rightarrow> int"

text \<open>What the outside answers during one pass of \<^verbatim>\<open>sensors_task\<close>.\<close>

record sensors_in =
  adc_get_channel :: "nat \<Rightarrow> int"
  simulation_mode :: bool
  bmp085_read_temp :: int
  bmp085_read_pressure :: int
  scp1000_dataready :: bool
  spi_semaphore_take :: bool
  scp1000_get_pressure :: real
  scp1000_get_temperature :: real
  hmc5843_read :: "int \<times> int \<times> int"

text \<open>What the outside answers during one pass of \<^verbatim>\<open>sensors_gps_task\<close>.\<close>

record gps_in =
  gps_semaphore_take :: bool
  gps_update_info :: "gps_info \<Rightarrow> gps_info"
  airborne :: bool

text \<open>
  The globals, the locals of \<^verbatim>\<open>sensors_task\<close> (\<open>temperature_10_local\<close> is its variable
  \<^verbatim>\<open>temperature_10\<close>), whether that task has deleted itself, the local \<^verbatim>\<open>i\<close> of
  \<^verbatim>\<open>sensors_gps_task\<close>, and the log.
\<close>

record system =
  sensor_data :: SensorData
  scale_z_gyro :: real
  temperature_10_local :: nat
  last_height :: real
  dt_since_last_height :: real
  low_update_counter :: nat
  sensors_task_deleted :: bool
  gps_i :: int
  trace :: "event list"

subsection \<open>Arithmetic of the target\<close>

definition wrap_u16 :: "nat \<Rightarrow> nat" where
  "wrap_u16 n = n mod 65536"

definition wrap_s16 :: "int \<Rightarrow> int" where
  "wrap_s16 x = (x + 32768) mod 65536 - 32768"

definition c_rem :: "int \<Rightarrow> int \<Rightarrow> int" where
  "c_rem a b = sgn a * (\<bar>a\<bar> mod \<bar>b\<bar>)"

text \<open>
  The cast \<^verbatim>\<open>(unsigned int)\<close> of a \<^verbatim>\<open>float\<close> drops the fraction. C leaves the cast of a value
  of -1 or less, or of 65536 or more, undefined; the model takes 0 for the first and the value
  modulo \<open>2 ^ 16\<close> for the second. The only variable so computed is never read.
\<close>

definition float_to_u16 :: "real \<Rightarrow> nat" where
  "float_to_u16 x = wrap_u16 (nat \<lfloor>x\<rfloor>)"

text \<open>
  Rounding to binary32. \<open>binade n x 0\<close> is the exponent \<open>e\<close> with \<open>2 ^ e \<le> x < 2 ^ (e + 1)\<close>
  of a positive \<open>x\<close>, found in at most \<open>n\<close> halvings or doublings; below \<open>2 ^ - 126\<close> the
  spacing of the subnormal numbers applies. The mantissa has 24 bits, so the values around
  \<open>x\<close> are the multiples of \<open>2 ^ (e - 23)\<close>.
\<close>

definition pow2 :: "int \<Rightarrow> real" where
  "pow2 k = (if 0 \<le> k then 2 ^ nat k else 1 / 2 ^ nat (- k))"

definition round_half_even :: "real \<Rightarrow> int" where
  "round_half_even y =
     (if y - of_int \<lfloor>y\<rfloor> < 1 / 2 then \<lfloor>y\<rfloor>
      else if 1 / 2 < y - of_int \<lfloor>y\<rfloor> then \<lfloor>y\<rfloor> + 1
      else if even \<lfloor>y\<rfloor> then \<lfloor>y\<rfloor> else \<lfloor>y\<rfloor> + 1)"

fun binade :: "nat \<Rightarrow> real \<Rightarrow> int \<Rightarrow> int" where
  "binade 0 x e = e"
| "binade (Suc n) x e =
     (if 2 \<le> x then binade n (x / 2) (e + 1)
      else if x < 1 then binade n (2 * x) (e - 1)
      else e)"

definition f32 :: "real \<Rightarrow> real" where
  "f32 x =
     (if x = 0 then 0
      else sgn x
             * real_of_int
                 (round_half_even (\<bar>x\<bar> / pow2 (max (binade 160 \<bar>x\<bar> 0) (- 126) - 23)))
             * pow2 (max (binade 160 \<bar>x\<bar> 0) (- 126) - 23))"

text \<open>The four operations on \<^verbatim>\<open>float\<close>.\<close>

definition fadd :: "real \<Rightarrow> real \<Rightarrow> real" where
  "fadd a b = f32 (a + b)"

definition fsub :: "real \<Rightarrow> real \<Rightarrow> real" where
  "fsub a b = f32 (a - b)"

definition fmul :: "real \<Rightarrow> real \<Rightarrow> real" where
  "fmul a b = f32 (a * b)"

definition fdiv :: "real \<Rightarrow> real \<Rightarrow> real" where
  "fdiv a b = f32 (a / b)"

text \<open>
  The cast \<^verbatim>\<open>(float)\<close> of an integer. The whole numbers among the constants of the source (0, 2,
  5, 10, 180, 6550, 6600, 30000) and \<^verbatim>\<open>-1.0\<close> are binary32 values and are written as they are.
\<close>

definition int_to_float :: "int \<Rightarrow> real" where
  "int_to_float n = f32 (real_of_int n)"

definition acc_value_g :: real where "acc_value_g = 6600"
definition INVERT_X :: real where "INVERT_X = - 1"

text \<open>
  Modelled from the spec: the macro \<^verbatim>\<open>MAX\<close> of \<^verbatim>\<open>common.h\<close>, a header that is not among the
  sources. The specification reads \<^verbatim>\<open>MAX(5.0f, sensor_data.gps.speed_ms)\<close> as the larger of the
  two.
\<close>

definition MAX_macro :: "real \<Rightarrow> real \<Rightarrow> real" where
  "MAX_macro a b = max a b"

subsection \<open>\<^verbatim>\<open>read_raw_sensor_data\<close> and \<^verbatim>\<open>scale_raw_sensor_data\<close>\<close>

definition emit :: "event list \<Rightarrow> system \<Rightarrow> system" where
  "emit es s = s\<lparr>trace := trace s @ es\<rparr>"

definition read_raw_sensor_data :: "sensors_in \<Rightarrow> system \<Rightarrow> system" where
  "read_raw_sensor_data inp s =
     emit (map AdcGetChannel [6, 1, 0, 4, 7, 5, 3])
       (s\<lparr>sensor_data := (sensor_data s)
            \<lparr>acc_x_raw := adc_get_channel inp 6,
             acc_z_raw := adc_get_channel inp 1,
             acc_y_raw := adc_get_channel inp 0,
             gyro_x_raw := adc_get_channel inp 4,
             gyro_y_raw := adc_get_channel inp 7,
             gyro_z_raw := adc_get_channel inp 5,
             idg500_vref := adc_get_channel inp 3\<rparr>\<rparr>)"

definition scale_raw_sensor_data :: "env \<Rightarrow> system \<Rightarrow> system" where
  "scale_raw_sensor_data e s =
     (let c = sensors (config e); d = sensor_data s in
      s\<lparr>sensor_data := d
           \<lparr>acc_x := fdiv (fsub (int_to_float (acc_x_raw d)) (acc_x_neutral c))
                      (fmul (- acc_value_g) INVERT_X),
            acc_y := fdiv (fsub (int_to_float (acc_y_raw d)) (acc_y_neutral c))
                      (fmul (- acc_value_g) INVERT_X),
            acc_z := fdiv (fsub (int_to_float (acc_z_raw d)) (acc_z_neutral c)) (- acc_value_g),
            p := fmul (fsub (int_to_float (gyro_x_raw d)) (gyro_x_neutral c))
                   (fmul (fdiv (fmul (- f32 0.02518315) (f32 3.14159)) 180) INVERT_X),
            q := fmul (fsub (int_to_float (gyro_y_raw d)) (gyro_y_neutral c))
                   (fmul (fdiv (fmul (- f32 0.02538315) (f32 3.14159)) 180) INVERT_X),
            r := fmul (fsub (int_to_float (gyro_z_raw d)) (gyro_z_neutral c))
                   (scale_z_gyro s)\<rparr>\<rparr>)"

subsection \<open>\<^verbatim>\<open>sensors_task\<close>: before the loop\<close>

definition macro_nonzero :: "int option \<Rightarrow> bool" where
  "macro_nonzero m = (case m of None \<Rightarrow> False | Some v \<Rightarrow> v \<noteq> 0)"

definition macro_defined :: "int option \<Rightarrow> bool" where
  "macro_defined m = (m \<noteq> None)"

text \<open>
  Lines 70 to 95: the local variables, the drivers, and the first samples. The global
  \<^verbatim>\<open>scale_z_gyro\<close> still has the value it was declared with at line 60, which is 0.
\<close>

definition sensors_task_begin :: "env \<Rightarrow> sensors_in \<Rightarrow> system \<Rightarrow> system" where
  "sensors_task_begin e inp s0 =
     (let s = s0\<lparr>temperature_10_local := 200, last_height := 0,
                 dt_since_last_height := 0, low_update_counter := 0\<rparr>;
          s = emit [Uart1Puts] s;
          s = (if macro_nonzero (ENABLE_QUADROCOPTER e) \<or> macro_nonzero (F1E_STEERING e)
               then emit [I2cInit, TaskDelay 20, Hmc5843Init] s else s);
          s = emit [AdcOpen] s;
          s = (if HARDWARE_VERSION e \<ge> V01O then emit [I2cInit, Bmp085Init] s
               else emit [Scp1000Init] s)
      in read_raw_sensor_data inp s)"

text \<open>Lines 99 to 102.\<close>

definition choose_scale_z_gyro :: "env \<Rightarrow> system \<Rightarrow> system" where
  "choose_scale_z_gyro e s =
     (if HARDWARE_VERSION e \<ge> V01N
      then s\<lparr>scale_z_gyro := fmul (fdiv (fmul (- f32 0.02538315) (f32 3.14159)) 180) 2\<rparr>
      else s\<lparr>scale_z_gyro := fdiv (fmul (f32 0.0062286) (f32 3.14159)) 180\<rparr>)"

text \<open>Lines 70 to 109: everything before the loop. The scaling of line 96 comes first.\<close>

definition sensors_task_init :: "env \<Rightarrow> sensors_in \<Rightarrow> system \<Rightarrow> system" where
  "sensors_task_init e inp s0 =
     emit [Uart1Puts]
       (choose_scale_z_gyro e
          (emit [AhrsInit] (scale_raw_sensor_data e (sensors_task_begin e inp s0))))"

subsection \<open>\<^verbatim>\<open>sensors_task\<close>: one pass through the loop\<close>

text \<open>
  Lines 113 to 121: the delay until the next period, the time since the last height and the
  counter, in the quadrocopter build and in the other.
\<close>

definition advance_time :: "env \<Rightarrow> system \<Rightarrow> system" where
  "advance_time e s =
     (if macro_defined (ENABLE_QUADROCOPTER e)
      then (emit [TaskDelayUntil 4] s)
             \<lparr>dt_since_last_height := fadd (dt_since_last_height s) (f32 0.004),
              low_update_counter := wrap_u16 (low_update_counter s + 1)\<rparr>
      else (emit [TaskDelayUntil 20] s)
             \<lparr>dt_since_last_height := fadd (dt_since_last_height s) (f32 0.02),
              low_update_counter := wrap_u16 (low_update_counter s + 5)\<rparr>)"

text \<open>Lines 122 and 123.\<close>

definition reset_counter :: "system \<Rightarrow> system" where
  "reset_counter s = (if low_update_counter s > 65000 then s\<lparr>low_update_counter := 0\<rparr> else s)"

text \<open>Lines 113 to 128: everything before the branch on the counter.\<close>

definition sample_and_scale :: "env \<Rightarrow> sensors_in \<Rightarrow> system \<Rightarrow> system" where
  "sample_and_scale e inp s =
     scale_raw_sensor_data e
       (emit [AdcStart] (read_raw_sensor_data inp (reset_counter (advance_time e s))))"

text \<open>Line 133. \<^verbatim>\<open>vTaskDelete\<close> of the running task does not return.\<close>

definition delete_self :: "system \<Rightarrow> system" where
  "delete_self s = (emit [TaskDelete] s)\<lparr>sensors_task_deleted := True\<rparr>"

text \<open>Line 135.\<close>

definition read_battery :: "sensors_in \<Rightarrow> system \<Rightarrow> system" where
  "read_battery inp s =
     emit [AdcGetChannel 8]
       (s\<lparr>sensor_data := (sensor_data s)
            \<lparr>battery_voltage_10 :=
               fmul (int_to_float (adc_get_channel inp 8))
                 (fdiv (fmul (f32 3.3) (f32 5.1)) 6550)\<rparr>\<rparr>)"

text \<open>Lines 140 to 143 and 147 to 153: the two halves of the BMP085 protocol.\<close>

definition bmp085_temperature_phase :: "env \<Rightarrow> sensors_in \<Rightarrow> system \<Rightarrow> system" where
  "bmp085_temperature_phase e inp s =
     (let tmp = bmp085_read_temp inp;
          t10 = bmp085_convert_temp e tmp
      in emit [Bmp085ReadTemp, Bmp085StartConvertPressure]
           (s\<lparr>sensor_data := (sensor_data s)
                \<lparr>temperature_10 := t10, temperature := fdiv (int_to_float t10) 10\<rparr>\<rparr>))"

definition bmp085_pressure_phase :: "env \<Rightarrow> sensors_in \<Rightarrow> system \<Rightarrow> system" where
  "bmp085_pressure_phase e inp s =
     (let tmp = bmp085_read_pressure inp;
          pr = int_to_float (bmp085_convert_pressure e tmp);
          height = scp1000_pressure_to_height e pr (temperature (sensor_data s))
      in emit [Bmp085ReadPressure, Bmp085StartConvertTemp]
           (s\<lparr>sensor_data := (sensor_data s)
                \<lparr>pressure := pr, pressure_height := height\<rparr>\<rparr>))"

text \<open>Lines 136 to 155.\<close>

definition bmp085_update :: "env \<Rightarrow> sensors_in \<Rightarrow> system \<Rightarrow> system" where
  "bmp085_update e inp s =
     (if HARDWARE_VERSION e \<ge> V01O
      then (if (low_update_counter s div 50) mod 2 = 0
            then bmp085_temperature_phase e inp s
            else bmp085_pressure_phase e inp s)
      else s)"

text \<open>Lines 131 to 156: the branch taken when the counter is a multiple of 50.\<close>

definition low_rate :: "env \<Rightarrow> sensors_in \<Rightarrow> system \<Rightarrow> system" where
  "low_rate e inp s =
     (if simulation_mode inp then delete_self s
      else bmp085_update e inp (read_battery inp s))"

text \<open>Lines 162 to 167: the SCP1000 is read only when the bus is free at once.\<close>

definition scp1000_acquire :: "sensors_in \<Rightarrow> system \<Rightarrow> system" where
  "scp1000_acquire inp s =
     (if spi_semaphore_take inp
      then emit [SpiSemaphoreTake 0, Scp1000GetPressure, Scp1000GetTemperature,
                 SpiSemaphoreGive]
             (s\<lparr>sensor_data := (sensor_data s)
                  \<lparr>pressure := scp1000_get_pressure inp,
                   temperature := scp1000_get_temperature inp\<rparr>\<rparr>)
      else emit [SpiSemaphoreTake 0] s)"

text \<open>Lines 168 to 171.\<close>

definition height_gate :: "env \<Rightarrow> system \<Rightarrow> system" where
  "height_gate e s0 =
     (let s = s0\<lparr>temperature_10_local :=
                   wrap_u16 (float_to_u16 (temperature (sensor_data s0)) * 10)\<rparr>;
          height = scp1000_pressure_to_height e (pressure (sensor_data s))
                     (temperature (sensor_data s))
      in if height > - 30000 \<and> height < 30000
         then s\<lparr>sensor_data := (sensor_data s)\<lparr>pressure_height := height\<rparr>\<rparr>
         else s)"

text \<open>Line 172.\<close>

definition vertical_speed_smooth :: "system \<Rightarrow> system" where
  "vertical_speed_smooth s =
     s\<lparr>sensor_data := (sensor_data s)
         \<lparr>vertical_speed :=
            fadd (fmul (vertical_speed (sensor_data s)) (f32 0.8))
              (fmul (fdiv (fsub (pressure_height (sensor_data s)) (last_height s))
                       (dt_since_last_height s))
                 (f32 0.2))\<rparr>\<rparr>"

text \<open>Lines 174 and 175.\<close>

definition vertical_speed_check :: "system \<Rightarrow> system" where
  "vertical_speed_check s =
     (if \<bar>vertical_speed (sensor_data s)\<bar> > MAX_macro 5 (speed_ms (gps (sensor_data s)))
      then s\<lparr>sensor_data := (sensor_data s)\<lparr>vertical_speed := 0\<rparr>\<rparr>
      else s)"

text \<open>Lines 177 and 178.\<close>

definition height_taken :: "system \<Rightarrow> system" where
  "height_taken s =
     s\<lparr>last_height := pressure_height (sensor_data s), dt_since_last_height := 0\<rparr>"

text \<open>Lines 160 to 179: the SCP1000 has a new reading.\<close>

definition scp1000_update :: "env \<Rightarrow> sensors_in \<Rightarrow> system \<Rightarrow> system" where
  "scp1000_update e inp s =
     height_taken (vertical_speed_check (vertical_speed_smooth
       (height_gate e (scp1000_acquire inp s))))"

text \<open>
  Lines 158 to 180: the branch taken otherwise. \<^verbatim>\<open>&&\<close> asks the SCP1000 only on the older
  boards.
\<close>

definition high_rate :: "env \<Rightarrow> sensors_in \<Rightarrow> system \<Rightarrow> system" where
  "high_rate e inp s =
     (if HARDWARE_VERSION e < V01O
      then (if scp1000_dataready inp then scp1000_update e inp (emit [Scp1000DataReady] s)
            else emit [Scp1000DataReady] s)
      else s)"

text \<open>Lines 184 to 189.\<close>

definition magnetometer_step :: "env \<Rightarrow> sensors_in \<Rightarrow> system \<Rightarrow> system" where
  "magnetometer_step e inp s =
     (if (macro_nonzero (ENABLE_QUADROCOPTER e) \<or> macro_nonzero (F1E_STEERING e))
         \<and> low_update_counter s mod 25 = 0
      then emit [Hmc5843Read]
             (s\<lparr>sensor_data := (sensor_data s)\<lparr>magnetometer_raw := hmc5843_read inp\<rparr>\<rparr>)
      else s)"

text \<open>Lines 191 to 195.\<close>

definition ahrs_step :: "env \<Rightarrow> system \<Rightarrow> system" where
  "ahrs_step e s =
     emit [AhrsFilter (if macro_defined (ENABLE_QUADROCOPTER e) then 0.005 else 0.02)] s"

text \<open>Lines 130 to 180.\<close>

definition barometer :: "env \<Rightarrow> sensors_in \<Rightarrow> system \<Rightarrow> system" where
  "barometer e inp s =
     (if low_update_counter s mod 50 = 0 then low_rate e inp s else high_rate e inp s)"

text \<open>One pass. A task that has deleted itself is never scheduled again.\<close>

definition sensors_tick :: "env \<Rightarrow> sensors_in \<Rightarrow> system \<Rightarrow> system" where
  "sensors_tick e inp s0 =
     (if sensors_task_deleted s0 then s0
      else
        let s = barometer e inp (sample_and_scale e inp s0)
        in if sensors_task_deleted s then s
           else ahrs_step e (magnetometer_step e inp s))"

subsection \<open>\<^verbatim>\<open>sensors_gps_task\<close>\<close>

text \<open>
  The wait for the receiver: \<^verbatim>\<open>for (i = 10; i <= 1000; i *= 2)\<close>. The answer of
  \<^verbatim>\<open>gps_valid_frames_receiving\<close> in the round where the counter is \<open>i\<close> is \<open>valid i\<close>.
\<close>

partial_function (option) gps_wait :: "(int \<Rightarrow> bool) \<Rightarrow> int \<Rightarrow> system \<Rightarrow> system option" where
  "gps_wait valid i s =
     (if i \<le> 1000
      then gps_wait valid (wrap_s16 (i * 2))
             (if \<not> valid i then emit [GpsValidFramesReceiving, TaskDelay i] s
              else emit [GpsValidFramesReceiving] s)
      else Some (s\<lparr>gps_i := i\<rparr>))"

definition gps_announce :: "system \<Rightarrow> system" where
  "gps_announce s =
     (if status (gps (sensor_data s)) = EMPTY then emit [Led2Off] s
      else if status (gps (sensor_data s)) = VOID then emit [Led2On] s
      else s)"

definition gps_task_init :: "(int \<Rightarrow> bool) \<Rightarrow> system \<Rightarrow> system option" where
  "gps_task_init valid s0 =
     (let s = emit [Uart1Puts] (s0\<lparr>gps_i := 0\<rparr>);
          s = s\<lparr>sensor_data := (sensor_data s)
                 \<lparr>gps := (gps (sensor_data s))
                    \<lparr>status := EMPTY, latitude_rad := 0, longitude_rad := 0\<rparr>\<rparr>\<rparr>;
          s = emit [GluonscriptInit, GpsOpenPort] s
      in case gps_wait valid 10 s of
           None \<Rightarrow> None
         | Some s \<Rightarrow> Some (gps_announce (emit [GpsConfigOutput, TaskDelay 100, Uart1Puts] s)))"

text \<open>Lines 276 to 288: a sentence has arrived within 205 ms, or none has.\<close>

definition gps_receive :: "gps_in \<Rightarrow> system \<Rightarrow> system" where
  "gps_receive inp s0 =
     (let s = emit [GpsSemaphoreTake 205] s0
      in if gps_semaphore_take inp
         then (emit [GpsUpdateInfo] s)
                \<lparr>sensor_data := (sensor_data s)
                   \<lparr>gps := gps_update_info inp (gps (sensor_data s))\<rparr>,
                 gps_i := wrap_s16 (gps_i s + 1)\<rparr>
         else (emit [Led2Off] s)
                \<lparr>sensor_data := (sensor_data s)
                   \<lparr>gps := (gps (sensor_data s))\<lparr>status := EMPTY, satellites_in_view := 0\<rparr>\<rparr>,
                 gps_i := 0\<rparr>)"

text \<open>Lines 293 and 294.\<close>

definition gps_fallback_speed :: "env \<Rightarrow> gps_in \<Rightarrow> system \<Rightarrow> system" where
  "gps_fallback_speed e inp s =
     (if satellites_in_view (gps (sensor_data s)) < 4 \<and> airborne inp
      then s\<lparr>sensor_data := (sensor_data s)
             \<lparr>gps := (gps (sensor_data s))
                \<lparr>speed_ms := cruising_speed_ms (control (config e))\<rparr>\<rparr>\<rparr>
      else s)"

text \<open>Lines 296 and 297.\<close>

definition gps_script :: "system \<Rightarrow> system" where
  "gps_script s = (if c_rem (gps_i s) 2 = 0 then emit [GluonscriptDo] s else s)"

text \<open>Lines 299 to 302.\<close>

definition gps_led :: "system \<Rightarrow> system" where
  "gps_led s =
     (if (c_rem (gps_i s) 6 = 0 \<or> c_rem (wrap_s16 (gps_i s + 1)) 6 = 0
            \<or> c_rem (wrap_s16 (gps_i s + 2)) 6 = 0)
         \<and> status (gps (sensor_data s)) = ACTIVE
         \<and> satellites_in_view (gps (sensor_data s)) > 5
      then emit [Led2Off] s
      else if status (gps (sensor_data s)) \<noteq> EMPTY then emit [Led2On] s
      else s)"

text \<open>One pass through the loop of \<^verbatim>\<open>sensors_gps_task\<close>.\<close>

definition gps_cycle :: "env \<Rightarrow> gps_in \<Rightarrow> system \<Rightarrow> system" where
  "gps_cycle e inp s = gps_led (gps_script (gps_fallback_speed e inp (gps_receive inp s)))"

subsection \<open>Runs\<close>

datatype pass = SensorsPass sensors_in | GpsPass gps_in

fun step :: "env \<Rightarrow> pass \<Rightarrow> system \<Rightarrow> system" where
  "step e (SensorsPass inp) s = sensors_tick e inp s"
| "step e (GpsPass inp) s = gps_cycle e inp s"

fun run :: "env \<Rightarrow> pass list \<Rightarrow> system \<Rightarrow> system" where
  "run e [] s = s"
| "run e (x # xs) s = run e xs (step e x s)"

subsection \<open>Notions used to state the properties\<close>

text \<open>The calls logged between two states of a run, the earlier first.\<close>

definition events_of :: "system \<Rightarrow> system \<Rightarrow> event list" where
  "events_of s s' = drop (length (trace s)) (trace s')"

text \<open>
  The counter and the time step of the pass that starts in a state: the counter is advanced
  and reset before anything reads it.
\<close>

definition counter_after :: "env \<Rightarrow> system \<Rightarrow> nat" where
  "counter_after e s = low_update_counter (reset_counter (advance_time e s))"

definition tick_seconds :: "env \<Rightarrow> real" where
  "tick_seconds e = (if macro_defined (ENABLE_QUADROCOPTER e) then f32 0.004 else f32 0.02)"

text \<open>The sum of \<open>n\<close> steps \<open>c\<close>, added one after the other to 0 in \<^verbatim>\<open>float\<close> arithmetic.\<close>

fun float_sum :: "real \<Rightarrow> nat \<Rightarrow> real" where
  "float_sum c 0 = 0"
| "float_sum c (Suc n) = fadd (float_sum c n) c"

text \<open>
  Passes, of either task, in none of which \<^verbatim>\<open>sensors_task\<close> reaches line 160 or deletes
  itself: when its counter is a multiple of 50 the simulation flag is not set, and otherwise
  the SCP1000, which is asked then, has no reading. \<open>ticks\<close> counts the passes of
  \<^verbatim>\<open>sensors_task\<close> among them.
\<close>

fun unserved :: "env \<Rightarrow> pass list \<Rightarrow> system \<Rightarrow> bool" where
  "unserved e [] s = True"
| "unserved e (GpsPass inp # xs) s = unserved e xs (gps_cycle e inp s)"
| "unserved e (SensorsPass inp # xs) s =
     ((if counter_after e s mod 50 = 0 then \<not> simulation_mode inp
       else \<not> scp1000_dataready inp)
      \<and> unserved e xs (sensors_tick e inp s))"

fun ticks :: "pass list \<Rightarrow> nat" where
  "ticks [] = 0"
| "ticks (GpsPass inp # xs) = ticks xs"
| "ticks (SensorsPass inp # xs) = Suc (ticks xs)"

text \<open>
  The stored height agrees with the stored pressure and temperature: converting them again
  gives the stored height, or a height that the gate of line 170 rejects.
\<close>

definition height_settled :: "env \<Rightarrow> SensorData \<Rightarrow> bool" where
  "height_settled e d =
     (- 30000 < scp1000_pressure_to_height e (pressure d) (temperature d)
        \<and> scp1000_pressure_to_height e (pressure d) (temperature d) < 30000
      \<longrightarrow> pressure_height d = scp1000_pressure_to_height e (pressure d) (temperature d))"

text \<open>The calls to the BMP085 driver among the calls of a log.\<close>

fun is_bmp085_call :: "event \<Rightarrow> bool" where
  "is_bmp085_call Bmp085ReadTemp = True"
| "is_bmp085_call Bmp085StartConvertPressure = True"
| "is_bmp085_call Bmp085ReadPressure = True"
| "is_bmp085_call Bmp085StartConvertTemp = True"
| "is_bmp085_call _ = False"

definition bmp085_calls :: "event list \<Rightarrow> event list" where
  "bmp085_calls es = filter is_bmp085_call es"

text \<open>
  The scaling as the specification words it: the sample less its neutral value, over a scale
  constant, with a sign; the difference and the quotient are those of \<^verbatim>\<open>float\<close>.
\<close>

definition spec_scaled :: "real \<Rightarrow> real \<Rightarrow> real \<Rightarrow> real \<Rightarrow> real" where
  "spec_scaled sign raw neutral scale = sign * fdiv (fsub raw neutral) scale"

subsection \<open>Concrete states, boards and answers\<close>

text \<open>Every variable zero, no fix.\<close>

definition boot_gps :: gps_info where
  "boot_gps = \<lparr>status = EMPTY, latitude_rad = 0, longitude_rad = 0, speed_ms = 0,
               satellites_in_view = 0\<rparr>"

definition boot_sensor_data :: SensorData where
  "boot_sensor_data =
     \<lparr>acc_x_raw = 0, acc_y_raw = 0, acc_z_raw = 0, gyro_x_raw = 0, gyro_y_raw = 0,
      gyro_z_raw = 0, idg500_vref = 0, acc_x = 0, acc_y = 0, acc_z = 0, p = 0, q = 0, r = 0,
      battery_voltage_10 = 0, temperature_10 = 0, temperature = 0, pressure = 0,
      pressure_height = 0, vertical_speed = 0, magnetometer_raw = (0, 0, 0), gps = boot_gps\<rparr>"

definition boot :: system where
  "boot = \<lparr>sensor_data = boot_sensor_data, scale_z_gyro = 0, temperature_10_local = 0,
            last_height = 0, dt_since_last_height = 0, low_update_counter = 0,
            sensors_task_deleted = False, gps_i = 0, trace = []\<rparr>"

definition example_config :: Configuration where
  "example_config =
     \<lparr>sensors = \<lparr>acc_x_neutral = 0, acc_y_neutral = 0, acc_z_neutral = 0,
                  gyro_x_neutral = 0, gyro_y_neutral = 0, gyro_z_neutral = 0\<rparr>,
      control = \<lparr>cruising_speed_ms = 12\<rparr>\<rparr>"

text \<open>
  The fixed-wing build on a board of the given generation. The conversions of the drivers are
  stand-ins: the height is the pressure, the converted values are the raw ones.
\<close>

definition fixed_wing :: "int \<Rightarrow> env" where
  "fixed_wing hw =
     \<lparr>ENABLE_QUADROCOPTER = None, F1E_STEERING = None, HARDWARE_VERSION = hw,
      config = example_config, scp1000_pressure_to_height = (\<lambda>pr t. pr),
      bmp085_convert_temp = (\<lambda>x. x), bmp085_convert_pressure = (\<lambda>x. x)\<rparr>"

text \<open>A pass of \<^verbatim>\<open>sensors_task\<close> in which nothing is ready and every sample is zero.\<close>

definition idle :: sensors_in where
  "idle = \<lparr>adc_get_channel = (\<lambda>ch. 0), simulation_mode = False, bmp085_read_temp = 0,
            bmp085_read_pressure = 0, scp1000_dataready = False, spi_semaphore_take = False,
            scp1000_get_pressure = 0, scp1000_get_temperature = 0, hmc5843_read = (0, 0, 0)\<rparr>"

text \<open>
  A pass in which the ADC gives 1 for the gyroscope of the x axis (channel 4) and 1000 for that
  of the z axis (channel 5).
\<close>

definition turning :: sensors_in where
  "turning = idle\<lparr>adc_get_channel := (\<lambda>ch. if ch = 4 then 1 else if ch = 5 then 1000 else 0)\<rparr>"

text \<open>A pass of \<^verbatim>\<open>sensors_gps_task\<close> without a sentence, and one with a good fix.\<close>

definition no_fix :: gps_in where
  "no_fix = \<lparr>gps_semaphore_take = False, gps_update_info = (\<lambda>g. g), airborne = False\<rparr>"

definition good_fix :: gps_in where
  "good_fix =
     \<lparr>gps_semaphore_take = True,
      gps_update_info = (\<lambda>g. g\<lparr>status := ACTIVE, speed_ms := 15, satellites_in_view := 7\<rparr>),
      airborne = True\<rparr>"

text \<open>
  Passes on an older board: the SCP1000 has a reading and the bus is free, so that the
  pressure read is \<open>pr\<close>; the SCP1000 has a reading and the bus is taken.
\<close>

definition reading :: "real \<Rightarrow> sensors_in" where
  "reading pr = idle\<lparr>scp1000_dataready := True, spi_semaphore_take := True,
                     scp1000_get_pressure := pr\<rparr>"

definition busy :: sensors_in where
  "busy = idle\<lparr>scp1000_dataready := True\<rparr>"

text \<open>States with a GPS speed of 2, and in level flight at height 100 with a rest of climb.\<close>

definition cruising :: system where
  "cruising = boot\<lparr>sensor_data := boot_sensor_data\<lparr>gps := boot_gps\<lparr>speed_ms := 2\<rparr>\<rparr>\<rparr>"

text \<open>
  The fixed-wing build on the oldest board with a conversion that adds 10 to the pressure, and
  a state whose stored height 7 is not the height of its stored pressure 50.
\<close>

definition shifted :: env where
  "shifted = (fixed_wing V01J)\<lparr>scp1000_pressure_to_height := (\<lambda>pr t. pr + 10)\<rparr>"

definition unsettled :: system where
  "unsettled = boot\<lparr>sensor_data := boot_sensor_data\<lparr>pressure := 50, pressure_height := 7\<rparr>\<rparr>"

definition level :: system where
  "level = boot\<lparr>sensor_data := boot_sensor_data
                    \<lparr>pressure := 100, pressure_height := 100, vertical_speed := 1\<rparr>,
                 last_height := 100, dt_since_last_height := 0.125\<rparr>"

section \<open>What each statement of the loops changes\<close>

text \<open>
  The statements of the two loops are small, and so are the facts about them: for every
  statement, what it does to each variable that a later property speaks of. They are
  simplification rules, so a property of a whole pass is computed statement by statement.
\<close>

subsection \<open>Rounding\<close>

lemma binade_unroll:
  "binade n x e =
     (if n = 0 then e
      else if 2 \<le> x then binade (n - 1) (x / 2) (e + 1)
      else if x < 1 then binade (n - 1) (2 * x) (e - 1)
      else e)"
  by (cases n) simp_all

lemmas f32_eval = f32_def binade_unroll pow2_def round_half_even_def

lemmas float_ops = fadd_def fsub_def fmul_def fdiv_def int_to_float_def

lemma f32_zero [simp]: "f32 0 = 0"
  by (simp add: f32_def)

lemma f32_minus: "f32 (- x) = - f32 x"
  by (simp add: f32_def)

lemma float_with_zero [simp]:
  "fmul x 0 = 0" "fmul 0 x = 0" "fdiv 0 x = 0" "fsub x x = 0" "fadd 0 0 = 0"
  by (simp_all add: float_ops)

lemma fdiv_minus_right: "fdiv a (- b) = - fdiv a b"
  by (simp add: fdiv_def f32_minus)

text \<open>The constants of the source that are not binary32 values, rounded.\<close>

lemma float_constants:
  "f32 0.8 = 13421773 / 16777216"
  "f32 0.2 = 13421773 / 67108864"
  "f32 0.02 = 5368709 / 268435456"
  "f32 0.004 = 8589935 / 2147483648"
  "f32 0.02518315 = 13520101 / 536870912"
  "f32 0.02538315 = 13627475 / 536870912"
  "f32 0.0062286 = 13375817 / 2147483648"
  "f32 3.14159 = 823549 / 262144"
  by (simp_all add: f32_eval)

text \<open>The factors of the gyroscopes, as \<^verbatim>\<open>float\<close> arithmetic gives them.\<close>

lemma gyro_factors:
  "fmul (fdiv (fmul (- f32 0.02518315) (f32 3.14159)) 180) INVERT_X = 7551043 / 17179869184"
  "fmul (fdiv (fmul (- f32 0.02538315) (f32 3.14159)) 180) INVERT_X = 15222023 / 34359738368"
  "fmul (fdiv (fmul (- f32 0.02538315) (f32 3.14159)) 180) 2 = - (15222023 / 17179869184)"
  "fdiv (fmul (f32 0.0062286) (f32 3.14159)) 180 = 14940919 / 137438953472"
  by (simp_all add: float_constants float_ops INVERT_X_def) (simp_all add: f32_eval)

lemma accelerometer_scale: "fmul (- 6600) INVERT_X = 6600"
  by (simp add: fmul_def INVERT_X_def) (simp add: f32_eval)

lemma emit_fields [simp]:
  "sensor_data (emit es s) = sensor_data s"
  "scale_z_gyro (emit es s) = scale_z_gyro s"
  "temperature_10_local (emit es s) = temperature_10_local s"
  "last_height (emit es s) = last_height s"
  "dt_since_last_height (emit es s) = dt_since_last_height s"
  "low_update_counter (emit es s) = low_update_counter s"
  "sensors_task_deleted (emit es s) = sensors_task_deleted s"
  "gps_i (emit es s) = gps_i s"
  "trace (emit es s) = trace s @ es"
  by (simp_all add: emit_def)

lemma advance_time_fields [simp]:
  "sensor_data (advance_time e s) = sensor_data s"
  "scale_z_gyro (advance_time e s) = scale_z_gyro s"
  "last_height (advance_time e s) = last_height s"
  "sensors_task_deleted (advance_time e s) = sensors_task_deleted s"
  "gps_i (advance_time e s) = gps_i s"
  "dt_since_last_height (advance_time e s) = fadd (dt_since_last_height s) (tick_seconds e)"
  "low_update_counter (advance_time e s) =
     wrap_u16 (low_update_counter s + (if macro_defined (ENABLE_QUADROCOPTER e) then 1 else 5))"
  "trace (advance_time e s) =
     trace s @ [TaskDelayUntil (if macro_defined (ENABLE_QUADROCOPTER e) then 4 else 20)]"
  by (simp_all add: advance_time_def tick_seconds_def)

lemma reset_counter_fields [simp]:
  "sensor_data (reset_counter s) = sensor_data s"
  "scale_z_gyro (reset_counter s) = scale_z_gyro s"
  "last_height (reset_counter s) = last_height s"
  "dt_since_last_height (reset_counter s) = dt_since_last_height s"
  "sensors_task_deleted (reset_counter s) = sensors_task_deleted s"
  "gps_i (reset_counter s) = gps_i s"
  "trace (reset_counter s) = trace s"
  "low_update_counter (reset_counter s) =
     (if low_update_counter s > 65000 then 0 else low_update_counter s)"
  by (simp_all add: reset_counter_def)

lemma read_raw_sensor_data_fields [simp]:
  "scale_z_gyro (read_raw_sensor_data inp s) = scale_z_gyro s"
  "last_height (read_raw_sensor_data inp s) = last_height s"
  "dt_since_last_height (read_raw_sensor_data inp s) = dt_since_last_height s"
  "low_update_counter (read_raw_sensor_data inp s) = low_update_counter s"
  "sensors_task_deleted (read_raw_sensor_data inp s) = sensors_task_deleted s"
  "gps_i (read_raw_sensor_data inp s) = gps_i s"
  "trace (read_raw_sensor_data inp s) = trace s @ map AdcGetChannel [6, 1, 0, 4, 7, 5, 3]"
  "gps (sensor_data (read_raw_sensor_data inp s)) = gps (sensor_data s)"
  "pressure (sensor_data (read_raw_sensor_data inp s)) = pressure (sensor_data s)"
  "temperature (sensor_data (read_raw_sensor_data inp s)) = temperature (sensor_data s)"
  "pressure_height (sensor_data (read_raw_sensor_data inp s)) = pressure_height (sensor_data s)"
  "vertical_speed (sensor_data (read_raw_sensor_data inp s)) = vertical_speed (sensor_data s)"
  by (simp_all add: read_raw_sensor_data_def)

lemma scale_raw_sensor_data_fields [simp]:
  "scale_z_gyro (scale_raw_sensor_data e s) = scale_z_gyro s"
  "last_height (scale_raw_sensor_data e s) = last_height s"
  "dt_since_last_height (scale_raw_sensor_data e s) = dt_since_last_height s"
  "low_update_counter (scale_raw_sensor_data e s) = low_update_counter s"
  "sensors_task_deleted (scale_raw_sensor_data e s) = sensors_task_deleted s"
  "gps_i (scale_raw_sensor_data e s) = gps_i s"
  "trace (scale_raw_sensor_data e s) = trace s"
  "gps (sensor_data (scale_raw_sensor_data e s)) = gps (sensor_data s)"
  "pressure (sensor_data (scale_raw_sensor_data e s)) = pressure (sensor_data s)"
  "temperature (sensor_data (scale_raw_sensor_data e s)) = temperature (sensor_data s)"
  "pressure_height (sensor_data (scale_raw_sensor_data e s)) = pressure_height (sensor_data s)"
  "vertical_speed (sensor_data (scale_raw_sensor_data e s)) = vertical_speed (sensor_data s)"
  by (simp_all add: scale_raw_sensor_data_def Let_def)

lemma sample_and_scale_fields [simp]:
  "scale_z_gyro (sample_and_scale e inp s) = scale_z_gyro s"
  "last_height (sample_and_scale e inp s) = last_height s"
  "sensors_task_deleted (sample_and_scale e inp s) = sensors_task_deleted s"
  "gps_i (sample_and_scale e inp s) = gps_i s"
  "gps (sensor_data (sample_and_scale e inp s)) = gps (sensor_data s)"
  "pressure (sensor_data (sample_and_scale e inp s)) = pressure (sensor_data s)"
  "temperature (sensor_data (sample_and_scale e inp s)) = temperature (sensor_data s)"
  "pressure_height (sensor_data (sample_and_scale e inp s)) = pressure_height (sensor_data s)"
  "vertical_speed (sensor_data (sample_and_scale e inp s)) = vertical_speed (sensor_data s)"
  "dt_since_last_height (sample_and_scale e inp s) = fadd (dt_since_last_height s) (tick_seconds e)"
  "low_update_counter (sample_and_scale e inp s) = counter_after e s"
  "trace (sample_and_scale e inp s) =
     trace s @ TaskDelayUntil (if macro_defined (ENABLE_QUADROCOPTER e) then 4 else 20)
               # map AdcGetChannel [6, 1, 0, 4, 7, 5, 3] @ [AdcStart]"
  by (simp_all add: sample_and_scale_def counter_after_def)

lemma counter_after_eq:
  "counter_after e s =
     (if wrap_u16 (low_update_counter s + (if macro_defined (ENABLE_QUADROCOPTER e) then 1 else 5))
           > 65000
      then 0
      else wrap_u16 (low_update_counter s + (if macro_defined (ENABLE_QUADROCOPTER e) then 1 else 5)))"
  by (simp add: counter_after_def)

lemma delete_self_fields [simp]:
  "sensor_data (delete_self s) = sensor_data s"
  "scale_z_gyro (delete_self s) = scale_z_gyro s"
  "last_height (delete_self s) = last_height s"
  "dt_since_last_height (delete_self s) = dt_since_last_height s"
  "low_update_counter (delete_self s) = low_update_counter s"
  "sensors_task_deleted (delete_self s)"
  "gps_i (delete_self s) = gps_i s"
  "trace (delete_self s) = trace s @ [TaskDelete]"
  by (simp_all add: delete_self_def)

lemma read_battery_fields [simp]:
  "scale_z_gyro (read_battery inp s) = scale_z_gyro s"
  "last_height (read_battery inp s) = last_height s"
  "dt_since_last_height (read_battery inp s) = dt_since_last_height s"
  "low_update_counter (read_battery inp s) = low_update_counter s"
  "sensors_task_deleted (read_battery inp s) = sensors_task_deleted s"
  "gps_i (read_battery inp s) = gps_i s"
  "trace (read_battery inp s) = trace s @ [AdcGetChannel 8]"
  "gps (sensor_data (read_battery inp s)) = gps (sensor_data s)"
  "pressure (sensor_data (read_battery inp s)) = pressure (sensor_data s)"
  "temperature (sensor_data (read_battery inp s)) = temperature (sensor_data s)"
  "pressure_height (sensor_data (read_battery inp s)) = pressure_height (sensor_data s)"
  "vertical_speed (sensor_data (read_battery inp s)) = vertical_speed (sensor_data s)"
  by (simp_all add: read_battery_def)

lemma bmp085_temperature_phase_fields [simp]:
  "scale_z_gyro (bmp085_temperature_phase e inp s) = scale_z_gyro s"
  "last_height (bmp085_temperature_phase e inp s) = last_height s"
  "dt_since_last_height (bmp085_temperature_phase e inp s) = dt_since_last_height s"
  "low_update_counter (bmp085_temperature_phase e inp s) = low_update_counter s"
  "sensors_task_deleted (bmp085_temperature_phase e inp s) = sensors_task_deleted s"
  "gps_i (bmp085_temperature_phase e inp s) = gps_i s"
  "trace (bmp085_temperature_phase e inp s) = trace s @ [Bmp085ReadTemp, Bmp085StartConvertPressure]"
  "gps (sensor_data (bmp085_temperature_phase e inp s)) = gps (sensor_data s)"
  "pressure (sensor_data (bmp085_temperature_phase e inp s)) = pressure (sensor_data s)"
  "temperature (sensor_data (bmp085_temperature_phase e inp s)) =
     fdiv (int_to_float (bmp085_convert_temp e (bmp085_read_temp inp))) 10"
  "pressure_height (sensor_data (bmp085_temperature_phase e inp s)) = pressure_height (sensor_data s)"
  "vertical_speed (sensor_data (bmp085_temperature_phase e inp s)) = vertical_speed (sensor_data s)"
  by (simp_all add: bmp085_temperature_phase_def Let_def)

lemma bmp085_pressure_phase_fields [simp]:
  "scale_z_gyro (bmp085_pressure_phase e inp s) = scale_z_gyro s"
  "last_height (bmp085_pressure_phase e inp s) = last_height s"
  "dt_since_last_height (bmp085_pressure_phase e inp s) = dt_since_last_height s"
  "low_update_counter (bmp085_pressure_phase e inp s) = low_update_counter s"
  "sensors_task_deleted (bmp085_pressure_phase e inp s) = sensors_task_deleted s"
  "gps_i (bmp085_pressure_phase e inp s) = gps_i s"
  "trace (bmp085_pressure_phase e inp s) = trace s @ [Bmp085ReadPressure, Bmp085StartConvertTemp]"
  "gps (sensor_data (bmp085_pressure_phase e inp s)) = gps (sensor_data s)"
  "pressure (sensor_data (bmp085_pressure_phase e inp s)) =
     int_to_float (bmp085_convert_pressure e (bmp085_read_pressure inp))"
  "temperature (sensor_data (bmp085_pressure_phase e inp s)) = temperature (sensor_data s)"
  "pressure_height (sensor_data (bmp085_pressure_phase e inp s)) =
     scp1000_pressure_to_height e
       (int_to_float (bmp085_convert_pressure e (bmp085_read_pressure inp)))
       (temperature (sensor_data s))"
  "vertical_speed (sensor_data (bmp085_pressure_phase e inp s)) = vertical_speed (sensor_data s)"
  by (simp_all add: bmp085_pressure_phase_def Let_def)

lemma bmp085_update_fields [simp]:
  "scale_z_gyro (bmp085_update e inp s) = scale_z_gyro s"
  "last_height (bmp085_update e inp s) = last_height s"
  "dt_since_last_height (bmp085_update e inp s) = dt_since_last_height s"
  "low_update_counter (bmp085_update e inp s) = low_update_counter s"
  "sensors_task_deleted (bmp085_update e inp s) = sensors_task_deleted s"
  "gps_i (bmp085_update e inp s) = gps_i s"
  "gps (sensor_data (bmp085_update e inp s)) = gps (sensor_data s)"
  "vertical_speed (sensor_data (bmp085_update e inp s)) = vertical_speed (sensor_data s)"
  by (simp_all add: bmp085_update_def)

lemma bmp085_update_legacy [simp]:
  "HARDWARE_VERSION e < V01O \<Longrightarrow> bmp085_update e inp s = s"
  by (simp add: bmp085_update_def)

lemma low_rate_fields [simp]:
  "scale_z_gyro (low_rate e inp s) = scale_z_gyro s"
  "last_height (low_rate e inp s) = last_height s"
  "dt_since_last_height (low_rate e inp s) = dt_since_last_height s"
  "low_update_counter (low_rate e inp s) = low_update_counter s"
  "sensors_task_deleted (low_rate e inp s) = (simulation_mode inp \<or> sensors_task_deleted s)"
  "gps_i (low_rate e inp s) = gps_i s"
  "gps (sensor_data (low_rate e inp s)) = gps (sensor_data s)"
  "vertical_speed (sensor_data (low_rate e inp s)) = vertical_speed (sensor_data s)"
  by (simp_all add: low_rate_def)

lemma scp1000_acquire_fields [simp]:
  "scale_z_gyro (scp1000_acquire inp s) = scale_z_gyro s"
  "last_height (scp1000_acquire inp s) = last_height s"
  "dt_since_last_height (scp1000_acquire inp s) = dt_since_last_height s"
  "low_update_counter (scp1000_acquire inp s) = low_update_counter s"
  "sensors_task_deleted (scp1000_acquire inp s) = sensors_task_deleted s"
  "gps_i (scp1000_acquire inp s) = gps_i s"
  "trace (scp1000_acquire inp s) =
     trace s @ (if spi_semaphore_take inp
                then [SpiSemaphoreTake 0, Scp1000GetPressure, Scp1000GetTemperature,
                      SpiSemaphoreGive]
                else [SpiSemaphoreTake 0])"
  "gps (sensor_data (scp1000_acquire inp s)) = gps (sensor_data s)"
  "pressure (sensor_data (scp1000_acquire inp s)) =
     (if spi_semaphore_take inp then scp1000_get_pressure inp else pressure (sensor_data s))"
  "temperature (sensor_data (scp1000_acquire inp s)) =
     (if spi_semaphore_take inp then scp1000_get_temperature inp else temperature (sensor_data s))"
  "pressure_height (sensor_data (scp1000_acquire inp s)) = pressure_height (sensor_data s)"
  "vertical_speed (sensor_data (scp1000_acquire inp s)) = vertical_speed (sensor_data s)"
  by (simp_all add: scp1000_acquire_def)

lemma height_gate_fields [simp]:
  "scale_z_gyro (height_gate e s) = scale_z_gyro s"
  "last_height (height_gate e s) = last_height s"
  "dt_since_last_height (height_gate e s) = dt_since_last_height s"
  "low_update_counter (height_gate e s) = low_update_counter s"
  "sensors_task_deleted (height_gate e s) = sensors_task_deleted s"
  "gps_i (height_gate e s) = gps_i s"
  "trace (height_gate e s) = trace s"
  "gps (sensor_data (height_gate e s)) = gps (sensor_data s)"
  "pressure (sensor_data (height_gate e s)) = pressure (sensor_data s)"
  "temperature (sensor_data (height_gate e s)) = temperature (sensor_data s)"
  "vertical_speed (sensor_data (height_gate e s)) = vertical_speed (sensor_data s)"
  "pressure_height (sensor_data (height_gate e s)) =
     (if - 30000 < scp1000_pressure_to_height e (pressure (sensor_data s)) (temperature (sensor_data s))
         \<and> scp1000_pressure_to_height e (pressure (sensor_data s)) (temperature (sensor_data s)) < 30000
      then scp1000_pressure_to_height e (pressure (sensor_data s)) (temperature (sensor_data s))
      else pressure_height (sensor_data s))"
  by (simp_all add: height_gate_def Let_def)

lemma vertical_speed_smooth_fields [simp]:
  "scale_z_gyro (vertical_speed_smooth s) = scale_z_gyro s"
  "last_height (vertical_speed_smooth s) = last_height s"
  "dt_since_last_height (vertical_speed_smooth s) = dt_since_last_height s"
  "low_update_counter (vertical_speed_smooth s) = low_update_counter s"
  "sensors_task_deleted (vertical_speed_smooth s) = sensors_task_deleted s"
  "gps_i (vertical_speed_smooth s) = gps_i s"
  "trace (vertical_speed_smooth s) = trace s"
  "gps (sensor_data (vertical_speed_smooth s)) = gps (sensor_data s)"
  "pressure (sensor_data (vertical_speed_smooth s)) = pressure (sensor_data s)"
  "temperature (sensor_data (vertical_speed_smooth s)) = temperature (sensor_data s)"
  "pressure_height (sensor_data (vertical_speed_smooth s)) = pressure_height (sensor_data s)"
  "vertical_speed (sensor_data (vertical_speed_smooth s)) =
     fadd (fmul (vertical_speed (sensor_data s)) (f32 0.8))
       (fmul (fdiv (fsub (pressure_height (sensor_data s)) (last_height s))
                (dt_since_last_height s))
          (f32 0.2))"
  by (simp_all add: vertical_speed_smooth_def)

lemma vertical_speed_check_fields [simp]:
  "scale_z_gyro (vertical_speed_check s) = scale_z_gyro s"
  "last_height (vertical_speed_check s) = last_height s"
  "dt_since_last_height (vertical_speed_check s) = dt_since_last_height s"
  "low_update_counter (vertical_speed_check s) = low_update_counter s"
  "sensors_task_deleted (vertical_speed_check s) = sensors_task_deleted s"
  "gps_i (vertical_speed_check s) = gps_i s"
  "trace (vertical_speed_check s) = trace s"
  "gps (sensor_data (vertical_speed_check s)) = gps (sensor_data s)"
  "pressure (sensor_data (vertical_speed_check s)) = pressure (sensor_data s)"
  "temperature (sensor_data (vertical_speed_check s)) = temperature (sensor_data s)"
  "pressure_height (sensor_data (vertical_speed_check s)) = pressure_height (sensor_data s)"
  "vertical_speed (sensor_data (vertical_speed_check s)) =
     (if \<bar>vertical_speed (sensor_data s)\<bar> > max 5 (speed_ms (gps (sensor_data s)))
      then 0 else vertical_speed (sensor_data s))"
  by (simp_all add: vertical_speed_check_def MAX_macro_def)

lemma height_taken_fields [simp]:
  "sensor_data (height_taken s) = sensor_data s"
  "scale_z_gyro (height_taken s) = scale_z_gyro s"
  "last_height (height_taken s) = pressure_height (sensor_data s)"
  "dt_since_last_height (height_taken s) = 0"
  "low_update_counter (height_taken s) = low_update_counter s"
  "sensors_task_deleted (height_taken s) = sensors_task_deleted s"
  "gps_i (height_taken s) = gps_i s"
  "trace (height_taken s) = trace s"
  by (simp_all add: height_taken_def)

lemma scp1000_update_fields [simp]:
  "scale_z_gyro (scp1000_update e inp s) = scale_z_gyro s"
  "low_update_counter (scp1000_update e inp s) = low_update_counter s"
  "sensors_task_deleted (scp1000_update e inp s) = sensors_task_deleted s"
  "gps_i (scp1000_update e inp s) = gps_i s"
  "gps (sensor_data (scp1000_update e inp s)) = gps (sensor_data s)"
  "dt_since_last_height (scp1000_update e inp s) = 0"
  "trace (scp1000_update e inp s) = trace (scp1000_acquire inp s)"
  "pressure (sensor_data (scp1000_update e inp s)) = pressure (sensor_data (scp1000_acquire inp s))"
  "temperature (sensor_data (scp1000_update e inp s)) = temperature (sensor_data (scp1000_acquire inp s))"
  "pressure_height (sensor_data (scp1000_update e inp s)) =
     pressure_height (sensor_data (height_gate e (scp1000_acquire inp s)))"
  "last_height (scp1000_update e inp s) =
     pressure_height (sensor_data (height_gate e (scp1000_acquire inp s)))"
  by (simp_all add: scp1000_update_def
       del: scp1000_acquire_fields(7,9,10) height_gate_fields(12))

lemma high_rate_fields [simp]:
  "scale_z_gyro (high_rate e inp s) = scale_z_gyro s"
  "low_update_counter (high_rate e inp s) = low_update_counter s"
  "sensors_task_deleted (high_rate e inp s) = sensors_task_deleted s"
  "gps_i (high_rate e inp s) = gps_i s"
  "gps (sensor_data (high_rate e inp s)) = gps (sensor_data s)"
  by (simp_all add: high_rate_def)

lemma magnetometer_step_fields [simp]:
  "scale_z_gyro (magnetometer_step e inp s) = scale_z_gyro s"
  "last_height (magnetometer_step e inp s) = last_height s"
  "dt_since_last_height (magnetometer_step e inp s) = dt_since_last_height s"
  "low_update_counter (magnetometer_step e inp s) = low_update_counter s"
  "sensors_task_deleted (magnetometer_step e inp s) = sensors_task_deleted s"
  "gps_i (magnetometer_step e inp s) = gps_i s"
  "gps (sensor_data (magnetometer_step e inp s)) = gps (sensor_data s)"
  "pressure (sensor_data (magnetometer_step e inp s)) = pressure (sensor_data s)"
  "temperature (sensor_data (magnetometer_step e inp s)) = temperature (sensor_data s)"
  "pressure_height (sensor_data (magnetometer_step e inp s)) = pressure_height (sensor_data s)"
  "vertical_speed (sensor_data (magnetometer_step e inp s)) = vertical_speed (sensor_data s)"
  by (simp_all add: magnetometer_step_def)

lemma ahrs_step_fields [simp]:
  "sensor_data (ahrs_step e s) = sensor_data s"
  "scale_z_gyro (ahrs_step e s) = scale_z_gyro s"
  "last_height (ahrs_step e s) = last_height s"
  "dt_since_last_height (ahrs_step e s) = dt_since_last_height s"
  "low_update_counter (ahrs_step e s) = low_update_counter s"
  "sensors_task_deleted (ahrs_step e s) = sensors_task_deleted s"
  "gps_i (ahrs_step e s) = gps_i s"
  by (simp_all add: ahrs_step_def)

lemma barometer_fields [simp]:
  "scale_z_gyro (barometer e inp s) = scale_z_gyro s"
  "low_update_counter (barometer e inp s) = low_update_counter s"
  "gps_i (barometer e inp s) = gps_i s"
  "gps (sensor_data (barometer e inp s)) = gps (sensor_data s)"
  by (simp_all add: barometer_def)

lemma gps_receive_fields [simp]:
  "scale_z_gyro (gps_receive inp s) = scale_z_gyro s"
  "temperature_10_local (gps_receive inp s) = temperature_10_local s"
  "last_height (gps_receive inp s) = last_height s"
  "dt_since_last_height (gps_receive inp s) = dt_since_last_height s"
  "low_update_counter (gps_receive inp s) = low_update_counter s"
  "sensors_task_deleted (gps_receive inp s) = sensors_task_deleted s"
  "(sensor_data (gps_receive inp s))\<lparr>gps := g\<rparr> = (sensor_data s)\<lparr>gps := g\<rparr>"
  "gps (sensor_data (gps_receive inp s)) =
     (if gps_semaphore_take inp then gps_update_info inp (gps (sensor_data s))
      else (gps (sensor_data s))\<lparr>status := EMPTY, satellites_in_view := 0\<rparr>)"
  "gps_i (gps_receive inp s) = (if gps_semaphore_take inp then wrap_s16 (gps_i s + 1) else 0)"
  "trace (gps_receive inp s) =
     trace s @ [GpsSemaphoreTake 205, if gps_semaphore_take inp then GpsUpdateInfo else Led2Off]"
  by (simp_all add: gps_receive_def Let_def)

lemma gps_fallback_speed_fields [simp]:
  "scale_z_gyro (gps_fallback_speed e inp s) = scale_z_gyro s"
  "temperature_10_local (gps_fallback_speed e inp s) = temperature_10_local s"
  "last_height (gps_fallback_speed e inp s) = last_height s"
  "dt_since_last_height (gps_fallback_speed e inp s) = dt_since_last_height s"
  "low_update_counter (gps_fallback_speed e inp s) = low_update_counter s"
  "sensors_task_deleted (gps_fallback_speed e inp s) = sensors_task_deleted s"
  "(sensor_data (gps_fallback_speed e inp s))\<lparr>gps := g\<rparr> = (sensor_data s)\<lparr>gps := g\<rparr>"
  "gps_i (gps_fallback_speed e inp s) = gps_i s"
  "trace (gps_fallback_speed e inp s) = trace s"
  "status (gps (sensor_data (gps_fallback_speed e inp s))) = status (gps (sensor_data s))"
  "latitude_rad (gps (sensor_data (gps_fallback_speed e inp s))) = latitude_rad (gps (sensor_data s))"
  "longitude_rad (gps (sensor_data (gps_fallback_speed e inp s))) = longitude_rad (gps (sensor_data s))"
  "satellites_in_view (gps (sensor_data (gps_fallback_speed e inp s))) =
     satellites_in_view (gps (sensor_data s))"
  "speed_ms (gps (sensor_data (gps_fallback_speed e inp s))) =
     (if satellites_in_view (gps (sensor_data s)) < 4 \<and> airborne inp
      then cruising_speed_ms (control (config e)) else speed_ms (gps (sensor_data s)))"
  by (simp_all add: gps_fallback_speed_def)

lemma gps_script_fields [simp]:
  "sensor_data (gps_script s) = sensor_data s"
  "scale_z_gyro (gps_script s) = scale_z_gyro s"
  "temperature_10_local (gps_script s) = temperature_10_local s"
  "last_height (gps_script s) = last_height s"
  "dt_since_last_height (gps_script s) = dt_since_last_height s"
  "low_update_counter (gps_script s) = low_update_counter s"
  "sensors_task_deleted (gps_script s) = sensors_task_deleted s"
  "gps_i (gps_script s) = gps_i s"
  "trace (gps_script s) = trace s @ (if c_rem (gps_i s) 2 = 0 then [GluonscriptDo] else [])"
  by (simp_all add: gps_script_def)

lemma gps_led_fields [simp]:
  "sensor_data (gps_led s) = sensor_data s"
  "scale_z_gyro (gps_led s) = scale_z_gyro s"
  "temperature_10_local (gps_led s) = temperature_10_local s"
  "last_height (gps_led s) = last_height s"
  "dt_since_last_height (gps_led s) = dt_since_last_height s"
  "low_update_counter (gps_led s) = low_update_counter s"
  "sensors_task_deleted (gps_led s) = sensors_task_deleted s"
  "gps_i (gps_led s) = gps_i s"
  by (simp_all add: gps_led_def)

lemma gps_led_trace:
  "trace (gps_led s) =
     trace s @
     (if (c_rem (gps_i s) 6 = 0 \<or> c_rem (wrap_s16 (gps_i s + 1)) 6 = 0
            \<or> c_rem (wrap_s16 (gps_i s + 2)) 6 = 0)
         \<and> status (gps (sensor_data s)) = ACTIVE
         \<and> satellites_in_view (gps (sensor_data s)) > 5
      then [Led2Off]
      else if status (gps (sensor_data s)) \<noteq> EMPTY then [Led2On] else [])"
  by (simp add: gps_led_def)

lemma gps_cycle_fields [simp]:
  "scale_z_gyro (gps_cycle e inp s) = scale_z_gyro s"
  "temperature_10_local (gps_cycle e inp s) = temperature_10_local s"
  "last_height (gps_cycle e inp s) = last_height s"
  "dt_since_last_height (gps_cycle e inp s) = dt_since_last_height s"
  "low_update_counter (gps_cycle e inp s) = low_update_counter s"
  "sensors_task_deleted (gps_cycle e inp s) = sensors_task_deleted s"
  "(sensor_data (gps_cycle e inp s))\<lparr>gps := g\<rparr> = (sensor_data s)\<lparr>gps := g\<rparr>"
  "gps_i (gps_cycle e inp s) = gps_i (gps_receive inp s)"
  by (simp_all add: gps_cycle_def del: gps_receive_fields(9))

lemma sensors_tick_fields [simp]:
  "scale_z_gyro (sensors_tick e inp s) = scale_z_gyro s"
  "gps_i (sensors_tick e inp s) = gps_i s"
  "gps (sensor_data (sensors_tick e inp s)) = gps (sensor_data s)"
  by (simp_all add: sensors_tick_def Let_def)

lemma step_scale_z_gyro [simp]: "scale_z_gyro (step e x s) = scale_z_gyro s"
  by (cases x) simp_all

lemma run_scale_z_gyro [simp]: "scale_z_gyro (run e xs s) = scale_z_gyro s"
  by (induction xs arbitrary: s) simp_all

lemma run_append: "run e (xs @ ys) s = run e ys (run e xs s)"
  by (induction xs arbitrary: s) simp_all

lemma run_sensors_gps:
  "gps (sensor_data (run e (map SensorsPass ins) s)) = gps (sensor_data s)
   \<and> gps_i (run e (map SensorsPass ins) s) = gps_i s"
  by (induction ins arbitrary: s) simp_all

lemma erase_gps:
  fixes d d' :: SensorData
  assumes "\<And>g. d'\<lparr>gps := g\<rparr> = d\<lparr>gps := g\<rparr>"
  shows "d' = d\<lparr>gps := gps d'\<rparr>"
proof -
  have "d' = d'\<lparr>gps := gps d'\<rparr>" by simp
  also have "\<dots> = d\<lparr>gps := gps d'\<rparr>" by (rule assms)
  finally show ?thesis .
qed

subsection \<open>Whole passes\<close>

lemma sensors_tick_deleted: "sensors_task_deleted s \<Longrightarrow> sensors_tick e inp s = s"
  by (simp add: sensors_tick_def)

lemma sensors_tick_terminating:
  "\<not> sensors_task_deleted s \<Longrightarrow> counter_after e s mod 50 = 0 \<Longrightarrow> simulation_mode inp
   \<Longrightarrow> sensors_tick e inp s = delete_self (sample_and_scale e inp s)"
  by (simp add: sensors_tick_def barometer_def low_rate_def)

lemma sensors_tick_low_rate:
  "\<not> sensors_task_deleted s \<Longrightarrow> counter_after e s mod 50 = 0 \<Longrightarrow> \<not> simulation_mode inp
   \<Longrightarrow> sensors_tick e inp s =
       ahrs_step e (magnetometer_step e inp
         (bmp085_update e inp (read_battery inp (sample_and_scale e inp s))))"
  by (simp add: sensors_tick_def barometer_def low_rate_def)

lemma sensors_tick_high_rate:
  "\<not> sensors_task_deleted s \<Longrightarrow> counter_after e s mod 50 \<noteq> 0
   \<Longrightarrow> sensors_tick e inp s =
       ahrs_step e (magnetometer_step e inp (high_rate e inp (sample_and_scale e inp s)))"
  by (simp add: sensors_tick_def barometer_def)

lemma sensors_tick_counter:
  "\<not> sensors_task_deleted s \<Longrightarrow> low_update_counter (sensors_tick e inp s) = counter_after e s"
  by (simp add: sensors_tick_def Let_def)

lemma sensors_tick_deleted_iff:
  "\<not> sensors_task_deleted s \<Longrightarrow>
   sensors_task_deleted (sensors_tick e inp s) = (counter_after e s mod 50 = 0 \<and> simulation_mode inp)"
  by (simp add: sensors_tick_def Let_def barometer_def)

lemma high_rate_ready:
  "HARDWARE_VERSION e < V01O \<Longrightarrow> scp1000_dataready inp
   \<Longrightarrow> high_rate e inp s = scp1000_update e inp (emit [Scp1000DataReady] s)"
  by (simp add: high_rate_def)

lemma high_rate_not_ready:
  "HARDWARE_VERSION e < V01O \<Longrightarrow> \<not> scp1000_dataready inp
   \<Longrightarrow> high_rate e inp s = emit [Scp1000DataReady] s"
  by (simp add: high_rate_def)

lemma sensors_tick_scp1000:
  "\<not> sensors_task_deleted s \<Longrightarrow> counter_after e s mod 50 \<noteq> 0
   \<Longrightarrow> HARDWARE_VERSION e < V01O \<Longrightarrow> scp1000_dataready inp
   \<Longrightarrow> sensors_tick e inp s =
       ahrs_step e (magnetometer_step e inp
         (scp1000_update e inp (emit [Scp1000DataReady] (sample_and_scale e inp s))))"
  by (simp add: sensors_tick_high_rate high_rate_ready)

lemma ahrs_step_trace:
  "trace (ahrs_step e s) =
     trace s @ [AhrsFilter (if macro_defined (ENABLE_QUADROCOPTER e) then 0.005 else 0.02)]"
  by (simp add: ahrs_step_def)

lemma magnetometer_step_trace:
  "trace (magnetometer_step e inp s) =
     trace s @ (if (macro_nonzero (ENABLE_QUADROCOPTER e) \<or> macro_nonzero (F1E_STEERING e))
                   \<and> low_update_counter s mod 25 = 0
                then [Hmc5843Read] else [])"
  by (simp add: magnetometer_step_def)

lemma bmp085_update_trace:
  "trace (bmp085_update e inp s) =
     trace s @ (if HARDWARE_VERSION e \<ge> V01O
                then (if (low_update_counter s div 50) mod 2 = 0
                      then [Bmp085ReadTemp, Bmp085StartConvertPressure]
                      else [Bmp085ReadPressure, Bmp085StartConvertTemp])
                else [])"
  by (simp add: bmp085_update_def)

lemma high_rate_trace:
  "trace (high_rate e inp s) =
     trace s @ (if HARDWARE_VERSION e < V01O
                then Scp1000DataReady #
                     (if scp1000_dataready inp
                      then (if spi_semaphore_take inp
                            then [SpiSemaphoreTake 0, Scp1000GetPressure, Scp1000GetTemperature,
                                  SpiSemaphoreGive]
                            else [SpiSemaphoreTake 0])
                      else [])
                else [])"
  by (simp add: high_rate_def)

lemmas trace_steps = ahrs_step_trace magnetometer_step_trace bmp085_update_trace high_rate_trace

lemmas concrete =
  boot_def boot_sensor_data_def boot_gps_def fixed_wing_def example_config_def idle_def
  counter_after_eq wrap_u16_def macro_defined_def macro_nonzero_def V01J_def V01N_def V01O_def

lemma gps_fallback_speed_gps:
  "gps (sensor_data (gps_fallback_speed e inp s)) =
     (gps (sensor_data s))
       \<lparr>speed_ms := (if satellites_in_view (gps (sensor_data s)) < 4 \<and> airborne inp
                     then cruising_speed_ms (control (config e))
                     else speed_ms (gps (sensor_data s)))\<rparr>"
  by (simp add: gps_fallback_speed_def)

lemma gps_cycle_gps:
  "gps (sensor_data (gps_cycle e inp s)) = gps (sensor_data (gps_fallback_speed e inp (gps_receive inp s)))"
  by (simp add: gps_cycle_def)

lemma gps_cycle_trace:
  "trace (gps_cycle e inp s) = trace (gps_led (gps_script (gps_fallback_speed e inp (gps_receive inp s))))"
  by (simp add: gps_cycle_def)

lemma c_rem_2: "(c_rem a 2 = 0) = even a"
proof -
  have "(c_rem a 2 = 0) = (a = 0 \<or> \<bar>a\<bar> mod 2 = 0)"
    by (simp add: c_rem_def sgn_eq_0_iff)
  also have "\<dots> = (a = 0 \<or> even a)"
    by (simp add: even_iff_mod_2_eq_zero [symmetric])
  also have "\<dots> = even a"
    by auto
  finally show ?thesis .
qed

lemma even_wrap_s16 [simp]: "even (wrap_s16 x) = even x"
proof -
  have "even ((x + 32768) mod 65536) = even (x + 32768)"
    by (rule dvd_mod_iff) simp
  then show ?thesis
    by (simp add: wrap_s16_def)
qed

lemma wrap_s16_succ:
  "- 32768 \<le> x \<Longrightarrow> x \<le> 32767 \<Longrightarrow> wrap_s16 (x + 1) = (if x = 32767 then - 32768 else x + 1)"
  by (simp add: wrap_s16_def)

subsection \<open>The stored height and the stored pressure\<close>

lemma height_settled_cong:
  "pressure d' = pressure d \<Longrightarrow> temperature d' = temperature d
   \<Longrightarrow> pressure_height d' = pressure_height d
   \<Longrightarrow> height_settled e d' = height_settled e d"
  by (simp add: height_settled_def)

lemma gps_cycle_barometer [simp]:
  "pressure (sensor_data (gps_cycle e inp s)) = pressure (sensor_data s)"
  "temperature (sensor_data (gps_cycle e inp s)) = temperature (sensor_data s)"
  "pressure_height (sensor_data (gps_cycle e inp s)) = pressure_height (sensor_data s)"
  "vertical_speed (sensor_data (gps_cycle e inp s)) = vertical_speed (sensor_data s)"
proof -
  have eq: "(sensor_data (gps_cycle e inp s))\<lparr>gps := boot_gps\<rparr> = (sensor_data s)\<lparr>gps := boot_gps\<rparr>"
    by simp
  show "pressure (sensor_data (gps_cycle e inp s)) = pressure (sensor_data s)"
    using arg_cong [OF eq, of pressure] by (simp del: gps_cycle_fields)
  show "temperature (sensor_data (gps_cycle e inp s)) = temperature (sensor_data s)"
    using arg_cong [OF eq, of temperature] by (simp del: gps_cycle_fields)
  show "pressure_height (sensor_data (gps_cycle e inp s)) = pressure_height (sensor_data s)"
    using arg_cong [OF eq, of pressure_height] by (simp del: gps_cycle_fields)
  show "vertical_speed (sensor_data (gps_cycle e inp s)) = vertical_speed (sensor_data s)"
    using arg_cong [OF eq, of vertical_speed] by (simp del: gps_cycle_fields)
qed

text \<open>
  A pass of the sensors task on an older board in which the SCP1000 is not served: the task
  is gone, or the counter is a multiple of 50, or no reading is ready.
\<close>

lemma legacy_tick_unserved:
  assumes "HARDWARE_VERSION e < V01O"
    and "sensors_task_deleted s \<or> counter_after e s mod 50 = 0 \<or> \<not> scp1000_dataready inp"
  shows "pressure (sensor_data (sensors_tick e inp s)) = pressure (sensor_data s)"
    and "temperature (sensor_data (sensors_tick e inp s)) = temperature (sensor_data s)"
    and "pressure_height (sensor_data (sensors_tick e inp s)) = pressure_height (sensor_data s)"
    and "vertical_speed (sensor_data (sensors_tick e inp s)) = vertical_speed (sensor_data s)"
    and "last_height (sensors_tick e inp s) = last_height s"
proof -
  have "pressure (sensor_data (sensors_tick e inp s)) = pressure (sensor_data s)
      \<and> temperature (sensor_data (sensors_tick e inp s)) = temperature (sensor_data s)
      \<and> pressure_height (sensor_data (sensors_tick e inp s)) = pressure_height (sensor_data s)
      \<and> vertical_speed (sensor_data (sensors_tick e inp s)) = vertical_speed (sensor_data s)
      \<and> last_height (sensors_tick e inp s) = last_height s"
  proof (cases "sensors_task_deleted s")
    case True
    then show ?thesis by (simp add: sensors_tick_deleted)
  next
    case alive: False
    show ?thesis
    proof (cases "counter_after e s mod 50 = 0")
      case low: True
      show ?thesis
      proof (cases "simulation_mode inp")
        case True
        with alive low show ?thesis by (simp add: sensors_tick_terminating)
      next
        case False
        with alive low assms(1) show ?thesis by (simp add: sensors_tick_low_rate)
      qed
    next
      case False
      with alive assms show ?thesis
        by (simp add: sensors_tick_high_rate high_rate_not_ready)
    qed
  qed
  then show "pressure (sensor_data (sensors_tick e inp s)) = pressure (sensor_data s)"
    and "temperature (sensor_data (sensors_tick e inp s)) = temperature (sensor_data s)"
    and "pressure_height (sensor_data (sensors_tick e inp s)) = pressure_height (sensor_data s)"
    and "vertical_speed (sensor_data (sensors_tick e inp s)) = vertical_speed (sensor_data s)"
    and "last_height (sensors_tick e inp s) = last_height s"
    by simp_all
qed

lemma sensors_tick_settled:
  assumes "HARDWARE_VERSION e < V01O" and "height_settled e (sensor_data s)"
  shows "height_settled e (sensor_data (sensors_tick e inp s))"
proof (cases "sensors_task_deleted s \<or> counter_after e s mod 50 = 0 \<or> \<not> scp1000_dataready inp")
  case True
  have "height_settled e (sensor_data (sensors_tick e inp s)) = height_settled e (sensor_data s)"
    by (rule height_settled_cong) (simp_all add: legacy_tick_unserved [OF assms(1) True])
  with assms(2) show ?thesis by simp
next
  case False
  then have "sensors_tick e inp s =
      ahrs_step e (magnetometer_step e inp
        (scp1000_update e inp (emit [Scp1000DataReady] (sample_and_scale e inp s))))"
    using assms(1) by (simp add: sensors_tick_scp1000)
  then show ?thesis
    by (simp add: height_settled_def)
qed

lemma settled_after_reading:
  assumes "\<not> sensors_task_deleted s" and "counter_after e s mod 50 \<noteq> 0"
    and "HARDWARE_VERSION e < V01O" and "scp1000_dataready inp"
  shows "height_settled e (sensor_data (sensors_tick e inp s))"
  by (simp add: sensors_tick_scp1000 [OF assms] height_settled_def)

lemma gps_cycle_settled:
  "height_settled e (sensor_data (gps_cycle e inp s)) = height_settled e (sensor_data s)"
  by (rule height_settled_cong) simp_all

lemma step_settled:
  "HARDWARE_VERSION e < V01O \<Longrightarrow> height_settled e (sensor_data s)
   \<Longrightarrow> height_settled e (sensor_data (step e x s))"
  by (cases x) (simp_all add: sensors_tick_settled gps_cycle_settled)

lemma run_settled:
  "HARDWARE_VERSION e < V01O \<Longrightarrow> height_settled e (sensor_data s)
   \<Longrightarrow> height_settled e (sensor_data (run e xs s))"
  by (induction xs arbitrary: s) (simp_all add: step_settled)

lemma settled_tick_without_bus:
  assumes "HARDWARE_VERSION e < V01O" and "\<not> spi_semaphore_take inp"
    and "height_settled e (sensor_data s)" 
  shows "pressure (sensor_data (sensors_tick e inp s)) = pressure (sensor_data s)
         \<and> temperature (sensor_data (sensors_tick e inp s)) = temperature (sensor_data s)
         \<and> pressure_height (sensor_data (sensors_tick e inp s)) = pressure_height (sensor_data s)"
proof (cases "sensors_task_deleted s \<or> counter_after e s mod 50 = 0 \<or> \<not> scp1000_dataready inp")
  case True
  with assms(1) show ?thesis
    by (simp add: legacy_tick_unserved)
next
  case False
  then have "sensors_tick e inp s =
      ahrs_step e (magnetometer_step e inp
        (scp1000_update e inp (emit [Scp1000DataReady] (sample_and_scale e inp s))))"
    using assms(1) by (simp add: sensors_tick_scp1000)
  then show ?thesis
    using assms(2,3) by (simp add: height_settled_def)
qed

text \<open>
  Passes in which \<^verbatim>\<open>sensors_task\<close> neither reaches line 160 nor deletes itself: the time since
  the last height grows by one step in each pass of that task, and nothing else that the
  vertical speed depends on changes.
\<close>

lemma unserved_tick:
  assumes "HARDWARE_VERSION e < V01O" and "\<not> sensors_task_deleted s"
    and "if counter_after e s mod 50 = 0 then \<not> simulation_mode inp
         else \<not> scp1000_dataready inp"
  shows "\<not> sensors_task_deleted (sensors_tick e inp s)
         \<and> dt_since_last_height (sensors_tick e inp s) =
             fadd (dt_since_last_height s) (tick_seconds e)
         \<and> vertical_speed (sensor_data (sensors_tick e inp s)) = vertical_speed (sensor_data s)
         \<and> last_height (sensors_tick e inp s) = last_height s"
proof (cases "counter_after e s mod 50 = 0")
  case True
  with assms show ?thesis by (simp add: sensors_tick_low_rate)
next
  case False
  with assms show ?thesis by (simp add: sensors_tick_high_rate high_rate_not_ready)
qed

lemma fadd_funpow_swap:
  "((\<lambda>d. fadd d c) ^^ n) (fadd x c) = fadd (((\<lambda>d. fadd d c) ^^ n) x) c"
  by (induction n) simp_all

lemma unserved_run:
  assumes "HARDWARE_VERSION e < V01O"
  shows "\<not> sensors_task_deleted s \<Longrightarrow> unserved e xs s
         \<Longrightarrow> \<not> sensors_task_deleted (run e xs s)
             \<and> dt_since_last_height (run e xs s) =
                 ((\<lambda>d. fadd d (tick_seconds e)) ^^ ticks xs) (dt_since_last_height s)
             \<and> vertical_speed (sensor_data (run e xs s)) = vertical_speed (sensor_data s)
             \<and> last_height (run e xs s) = last_height s"
proof (induction xs arbitrary: s)
  case Nil
  then show ?case by simp
next
  case (Cons x xs)
  show ?case
  proof (cases x)
    case (GpsPass inp)
    with Cons.prems have "\<not> sensors_task_deleted (gps_cycle e inp s)"
      and "unserved e xs (gps_cycle e inp s)"
      by simp_all
    from Cons.IH [OF this] show ?thesis
      by (simp add: GpsPass)
  next
    case (SensorsPass inp)
    with Cons.prems have here: "if counter_after e s mod 50 = 0 then \<not> simulation_mode inp
         else \<not> scp1000_dataready inp"
      and rest: "unserved e xs (sensors_tick e inp s)"
      by simp_all
    note t = unserved_tick [OF assms Cons.prems(1) here]
    from t have alive: "\<not> sensors_task_deleted (sensors_tick e inp s)" by simp
    from Cons.IH [OF alive rest] t show ?thesis
      by (simp add: SensorsPass fadd_funpow_swap)
  qed
qed

lemma float_sum_funpow: "float_sum c n = ((\<lambda>d. fadd d c) ^^ n) 0"
  by (induction n) simp_all

text \<open>
  What a pass leaves behind when the counter is not a multiple of 50 on an older board: with a
  reading of the SCP1000, and without.
\<close>

lemma reading_tick_state:
  assumes "HARDWARE_VERSION e < V01O" and "\<not> sensors_task_deleted s"
    and "counter_after e s mod 50 \<noteq> 0" and "scp1000_dataready inp"
    and "pr = (if spi_semaphore_take inp then scp1000_get_pressure inp else pressure (sensor_data s))"
    and "t = (if spi_semaphore_take inp then scp1000_get_temperature inp
              else temperature (sensor_data s))"
    and "ph = (if - 30000 < scp1000_pressure_to_height e pr t
                  \<and> scp1000_pressure_to_height e pr t < 30000
               then scp1000_pressure_to_height e pr t else pressure_height (sensor_data s))"
    and "v = fadd (fmul (vertical_speed (sensor_data s)) (f32 0.8))
               (fmul (fdiv (fsub ph (last_height s))
                        (fadd (dt_since_last_height s) (tick_seconds e)))
                  (f32 0.2))"
  shows "\<not> sensors_task_deleted (sensors_tick e inp s)
         \<and> low_update_counter (sensors_tick e inp s) = counter_after e s
         \<and> dt_since_last_height (sensors_tick e inp s) = 0
         \<and> last_height (sensors_tick e inp s) = ph
         \<and> pressure (sensor_data (sensors_tick e inp s)) = pr
         \<and> temperature (sensor_data (sensors_tick e inp s)) = t
         \<and> pressure_height (sensor_data (sensors_tick e inp s)) = ph
         \<and> vertical_speed (sensor_data (sensors_tick e inp s)) =
             (if \<bar>v\<bar> > max 5 (speed_ms (gps (sensor_data s))) then 0 else v)
         \<and> gps (sensor_data (sensors_tick e inp s)) = gps (sensor_data s)"
proof -
  have tick: "sensors_tick e inp s =
      ahrs_step e (magnetometer_step e inp
        (scp1000_update e inp (emit [Scp1000DataReady] (sample_and_scale e inp s))))"
    using assms(2,3,1,4) by (rule sensors_tick_scp1000)
  have gate: "pressure_height (sensor_data
        (height_gate e (scp1000_acquire inp (emit [Scp1000DataReady] (sample_and_scale e inp s))))) = ph"
    unfolding assms(7) assms(5) assms(6) by (cases "spi_semaphore_take inp") simp_all
  have "vertical_speed (sensor_data (sensors_tick e inp s)) =
      (if \<bar>v\<bar> > max 5 (speed_ms (gps (sensor_data s))) then 0 else v)"
    unfolding tick scp1000_update_def
    using assms(8) gate by (simp del: height_gate_fields(12))
  moreover have "pressure_height (sensor_data (sensors_tick e inp s)) = ph"
    and "last_height (sensors_tick e inp s) = ph"
    using gate by (simp_all add: tick del: height_gate_fields(12))
  moreover have "pressure (sensor_data (sensors_tick e inp s)) = pr"
    and "temperature (sensor_data (sensors_tick e inp s)) = t"
    and "dt_since_last_height (sensors_tick e inp s) = 0"
    and "\<not> sensors_task_deleted (sensors_tick e inp s)"
    and "low_update_counter (sensors_tick e inp s) = counter_after e s"
    and "gps (sensor_data (sensors_tick e inp s)) = gps (sensor_data s)"
    using assms(2,5,6) by (simp_all add: tick)
  ultimately show ?thesis
    by simp
qed

lemma quiet_tick_state:
  assumes "HARDWARE_VERSION e < V01O" and "\<not> sensors_task_deleted s"
    and "counter_after e s mod 50 \<noteq> 0" and "\<not> scp1000_dataready inp"
  shows "\<not> sensors_task_deleted (sensors_tick e inp s)
         \<and> low_update_counter (sensors_tick e inp s) = counter_after e s
         \<and> dt_since_last_height (sensors_tick e inp s) =
             fadd (dt_since_last_height s) (tick_seconds e)
         \<and> last_height (sensors_tick e inp s) = last_height s
         \<and> pressure (sensor_data (sensors_tick e inp s)) = pressure (sensor_data s)
         \<and> temperature (sensor_data (sensors_tick e inp s)) = temperature (sensor_data s)
         \<and> pressure_height (sensor_data (sensors_tick e inp s)) = pressure_height (sensor_data s)
         \<and> vertical_speed (sensor_data (sensors_tick e inp s)) = vertical_speed (sensor_data s)
         \<and> gps (sensor_data (sensors_tick e inp s)) = gps (sensor_data s)"
  using assms by (simp add: sensors_tick_high_rate high_rate_not_ready)

lemma gps_cycle_state:
  "sensors_task_deleted (gps_cycle e inp s) = sensors_task_deleted s
   \<and> low_update_counter (gps_cycle e inp s) = low_update_counter s
   \<and> dt_since_last_height (gps_cycle e inp s) = dt_since_last_height s
   \<and> last_height (gps_cycle e inp s) = last_height s
   \<and> pressure (sensor_data (gps_cycle e inp s)) = pressure (sensor_data s)
   \<and> temperature (sensor_data (gps_cycle e inp s)) = temperature (sensor_data s)
   \<and> pressure_height (sensor_data (gps_cycle e inp s)) = pressure_height (sensor_data s)
   \<and> vertical_speed (sensor_data (gps_cycle e inp s)) = vertical_speed (sensor_data s)"
  by simp

subsection \<open>Evaluation on concrete passes\<close>

lemmas concrete_inputs = reading_def busy_def cruising_def level_def

lemmas evaluate =
  sensors_tick_scp1000 sensors_tick_high_rate sensors_tick_low_rate high_rate_not_ready
  scp1000_update_def tick_seconds_def concrete concrete_inputs

subsection \<open>Scale constants\<close>

lemma scale_raw_sensor_data_scaled:
  "acc_x (sensor_data (scale_raw_sensor_data e s)) =
     fdiv (fsub (int_to_float (acc_x_raw (sensor_data s))) (acc_x_neutral (sensors (config e))))
       6600"
  "acc_y (sensor_data (scale_raw_sensor_data e s)) =
     fdiv (fsub (int_to_float (acc_y_raw (sensor_data s))) (acc_y_neutral (sensors (config e))))
       6600"
  "acc_z (sensor_data (scale_raw_sensor_data e s)) =
     - fdiv (fsub (int_to_float (acc_z_raw (sensor_data s))) (acc_z_neutral (sensors (config e))))
         6600"
  "p (sensor_data (scale_raw_sensor_data e s)) =
     fmul (fsub (int_to_float (gyro_x_raw (sensor_data s))) (gyro_x_neutral (sensors (config e))))
       (7551043 / 17179869184)"
  "q (sensor_data (scale_raw_sensor_data e s)) =
     fmul (fsub (int_to_float (gyro_y_raw (sensor_data s))) (gyro_y_neutral (sensors (config e))))
       (15222023 / 34359738368)"
  "r (sensor_data (scale_raw_sensor_data e s)) =
     fmul (fsub (int_to_float (gyro_z_raw (sensor_data s))) (gyro_z_neutral (sensors (config e))))
       (scale_z_gyro s)"
  unfolding scale_raw_sensor_data_def Let_def acc_value_g_def accelerometer_scale gyro_factors
  by (simp_all add: fdiv_minus_right)

lemma scale_raw_sensor_data_raw [simp]:
  "acc_x_raw (sensor_data (scale_raw_sensor_data e s)) = acc_x_raw (sensor_data s)"
  "acc_y_raw (sensor_data (scale_raw_sensor_data e s)) = acc_y_raw (sensor_data s)"
  "acc_z_raw (sensor_data (scale_raw_sensor_data e s)) = acc_z_raw (sensor_data s)"
  "gyro_x_raw (sensor_data (scale_raw_sensor_data e s)) = gyro_x_raw (sensor_data s)"
  "gyro_y_raw (sensor_data (scale_raw_sensor_data e s)) = gyro_y_raw (sensor_data s)"
  "gyro_z_raw (sensor_data (scale_raw_sensor_data e s)) = gyro_z_raw (sensor_data s)"
  by (simp_all add: scale_raw_sensor_data_def Let_def)

lemma sensors_task_begin_fields [simp]:
  "scale_z_gyro (sensors_task_begin e inp s) = scale_z_gyro s"
  "gyro_z_raw (sensor_data (sensors_task_begin e inp s)) = adc_get_channel inp 5"
  by (simp_all add: sensors_task_begin_def Let_def read_raw_sensor_data_def)

lemma choose_scale_z_gyro_fields [simp]:
  "sensor_data (choose_scale_z_gyro e s) = sensor_data s"
  "scale_z_gyro (choose_scale_z_gyro e s) =
     (if HARDWARE_VERSION e \<ge> V01N then - (15222023 / 17179869184)
      else 14940919 / 137438953472)"
  unfolding choose_scale_z_gyro_def gyro_factors by simp_all

lemma sensors_task_init_fields:
  "scale_z_gyro (sensors_task_init e inp s) =
     (if HARDWARE_VERSION e \<ge> V01N then - (15222023 / 17179869184)
      else 14940919 / 137438953472)"
  "gyro_z_raw (sensor_data (sensors_task_init e inp s)) = adc_get_channel inp 5"
  "r (sensor_data (sensors_task_init e inp s)) =
     r (sensor_data (scale_raw_sensor_data e (sensors_task_begin e inp s)))"
  by (simp_all add: sensors_task_init_def)

lemma sample_and_scale_rates:
  "gyro_x_raw (sensor_data (sample_and_scale e inp s)) = adc_get_channel inp 4"
  "gyro_z_raw (sensor_data (sample_and_scale e inp s)) = adc_get_channel inp 5"
  "p (sensor_data (sample_and_scale e inp s)) =
     fmul (fsub (int_to_float (adc_get_channel inp 4)) (gyro_x_neutral (sensors (config e))))
       (7551043 / 17179869184)"
  "r (sensor_data (sample_and_scale e inp s)) =
     fmul (fsub (int_to_float (adc_get_channel inp 5)) (gyro_z_neutral (sensors (config e))))
       (scale_z_gyro s)"
  unfolding sample_and_scale_def
  by (simp_all add: scale_raw_sensor_data_scaled(4,6) read_raw_sensor_data_def
        reset_counter_def advance_time_def)

lemma sensors_task_init_locals:
  "dt_since_last_height (sensors_task_init e inp s) = 0"
  "last_height (sensors_task_init e inp s) = 0"
  "low_update_counter (sensors_task_init e inp s) = 0"
  "sensors_task_deleted (sensors_task_init e inp s) = sensors_task_deleted s"
  "vertical_speed (sensor_data (sensors_task_init e inp s)) = vertical_speed (sensor_data s)"
  "gps (sensor_data (sensors_task_init e inp s)) = gps (sensor_data s)"
  by (simp_all add: sensors_task_init_def choose_scale_z_gyro_def scale_raw_sensor_data_def
        sensors_task_begin_def read_raw_sensor_data_def Let_def)

subsection \<open>The counter of the fixed-wing build\<close>

lemma counter_after_fixed_wing:
  assumes "\<not> macro_defined (ENABLE_QUADROCOPTER e)" and "low_update_counter s = 5 * k"
    and "k \<le> 13000"
  shows "counter_after e s = 5 * (Suc k mod 13001)"
proof (cases "k = 13000")
  case True
  with assms show ?thesis by (simp add: counter_after_eq wrap_u16_def)
next
  case False
  with assms have "k < 13000" by simp
  then have "Suc k mod 13001 = Suc k" by simp
  moreover have "5 * k + 5 \<le> 65000" using \<open>k < 13000\<close> by simp
  ultimately show ?thesis
    using assms by (simp add: counter_after_eq wrap_u16_def)
qed

lemma fixed_wing_counter:
  assumes "\<not> macro_defined (ENABLE_QUADROCOPTER e)"
  shows "\<not> sensors_task_deleted s \<Longrightarrow> low_update_counter s = 5 * k \<Longrightarrow> k \<le> 13000
         \<Longrightarrow> \<forall>i \<in> set ins. \<not> simulation_mode i
         \<Longrightarrow> \<not> sensors_task_deleted (run e (map SensorsPass ins) s)
             \<and> low_update_counter (run e (map SensorsPass ins) s) = 5 * ((k + length ins) mod 13001)"
proof (induction ins arbitrary: s k)
  case Nil
  then show ?case by simp
next
  case (Cons i ins)
  have c: "counter_after e s = 5 * (Suc k mod 13001)"
    using assms Cons.prems(2,3) by (rule counter_after_fixed_wing)
  have alive: "\<not> sensors_task_deleted (sensors_tick e i s)"
    using Cons.prems(1,4) by (simp add: sensors_tick_deleted_iff)
  have count: "low_update_counter (sensors_tick e i s) = 5 * (Suc k mod 13001)"
    using Cons.prems(1) c by (simp add: sensors_tick_counter)
  have "Suc k mod 13001 \<le> 13000" by simp
  moreover have "\<forall>i \<in> set ins. \<not> simulation_mode i" using Cons.prems(4) by simp
  ultimately have "\<not> sensors_task_deleted (run e (map SensorsPass ins) (sensors_tick e i s))
      \<and> low_update_counter (run e (map SensorsPass ins) (sensors_tick e i s)) =
          5 * ((Suc k mod 13001 + length ins) mod 13001)"
    using alive count by (intro Cons.IH)
  moreover have "(Suc k mod 13001 + length ins) mod 13001 = (k + length (i # ins)) mod 13001"
    by (simp add: mod_add_left_eq)
  ultimately show ?case by simp
qed

lemma low_rate_tick_bmp085_calls:
  assumes "\<not> sensors_task_deleted s" and "HARDWARE_VERSION e \<ge> V01O"
    and "counter_after e s mod 50 = 0" and "\<not> simulation_mode inp"
  shows "bmp085_calls (events_of s (sensors_tick e inp s)) =
           (if (counter_after e s div 50) mod 2 = 0
            then [Bmp085ReadTemp, Bmp085StartConvertPressure]
            else [Bmp085ReadPressure, Bmp085StartConvertTemp])"
proof -
  have "sensors_tick e inp s =
      ahrs_step e (magnetometer_step e inp
        (bmp085_update e inp (read_battery inp (sample_and_scale e inp s))))"
    using assms(1,3,4) by (rule sensors_tick_low_rate)
  then show ?thesis
    using assms(2) by (simp add: events_of_def bmp085_calls_def trace_steps)
qed

subsection \<open>The start of the GPS task\<close>

text \<open>The wait for the receiver ends, with the counter at 1280.\<close>

lemma gps_wait_round:
  "i \<le> 1000 \<Longrightarrow>
   gps_wait valid i s =
     gps_wait valid (wrap_s16 (i * 2))
       (if \<not> valid i then emit [GpsValidFramesReceiving, TaskDelay i] s
        else emit [GpsValidFramesReceiving] s)"
  by (subst gps_wait.simps) simp

lemma gps_wait_done: "\<not> i \<le> 1000 \<Longrightarrow> gps_wait valid i s = Some (s\<lparr>gps_i := i\<rparr>)"
  by (subst gps_wait.simps) simp

lemma gps_wait_returns: "\<exists>s'. gps_wait valid 10 s = Some s' \<and> gps_i s' = 1280"
  by (simp add: gps_wait_round gps_wait_done wrap_s16_def)

lemma gps_task_init_returns: "\<exists>s'. gps_task_init valid s = Some s' \<and> gps_i s' = 1280"
proof -
  obtain s' where
    "gps_wait valid 10
       (emit [GluonscriptInit, GpsOpenPort]
          ((emit [Uart1Puts] (s\<lparr>gps_i := 0\<rparr>))
             \<lparr>sensor_data := (sensor_data (emit [Uart1Puts] (s\<lparr>gps_i := 0\<rparr>)))
                \<lparr>gps := (gps (sensor_data (emit [Uart1Puts] (s\<lparr>gps_i := 0\<rparr>))))
                   \<lparr>status := EMPTY, latitude_rad := 0, longitude_rad := 0\<rparr>\<rparr>\<rparr>)) = Some s'"
    and "gps_i s' = 1280"
    using gps_wait_returns by blast
  then show ?thesis
    by (simp add: gps_task_init_def Let_def gps_announce_def)
qed

text \<open>A row of sentences counts the sequence counter up, as long as it fits.\<close>

lemma gps_cycle_counts:
  "gps_semaphore_take inp \<Longrightarrow> - 32768 \<le> gps_i s \<Longrightarrow> gps_i s < 32767
   \<Longrightarrow> gps_i (gps_cycle e inp s) = gps_i s + 1"
  by (simp add: wrap_s16_succ)

lemma gps_run_counts:
  "gps_semaphore_take inp \<Longrightarrow> - 32768 \<le> gps_i s \<Longrightarrow> gps_i s + int n \<le> 32767
   \<Longrightarrow> gps_i (run e (replicate n (GpsPass inp)) s) = gps_i s + int n"
proof (induction n arbitrary: s)
  case 0
  then show ?case by simp
next
  case (Suc n)
  have one: "gps_i (gps_cycle e inp s) = gps_i s + 1"
    using Suc.prems by (intro gps_cycle_counts) simp_all
  have "gps_i (run e (replicate n (GpsPass inp)) (gps_cycle e inp s)) =
      gps_i (gps_cycle e inp s) + int n"
    using Suc.prems one by (intro Suc.IH) simp_all
  with one show ?case by simp
qed

section \<open>The properties\<close>

subsection \<open>Who writes what\<close>

text \<open>
  C3. However many passes \<^verbatim>\<open>sensors_task\<close> makes while \<^verbatim>\<open>sensors_gps_task\<close> does not run,
  \<^verbatim>\<open>sensor_data.gps\<close> (status, latitude, longitude, speed, satellites in view) and the
  sequence counter \<^verbatim>\<open>i\<close> of the GPS task keep the values they had. Conversely a pass of
  \<^verbatim>\<open>sensors_gps_task\<close> changes no field of \<^verbatim>\<open>sensor_data\<close> outside \<^verbatim>\<open>gps\<close>, nor
  \<^verbatim>\<open>scale_z_gyro\<close>, nor a variable of \<^verbatim>\<open>sensors_task\<close>. So no field is written by both tasks.
\<close>

theorem tasks_write_disjoint_fields:
  "gps (sensor_data (run e (map SensorsPass ins) s)) = gps (sensor_data s)
   \<and> gps_i (run e (map SensorsPass ins) s) = gps_i s
   \<and> sensor_data (gps_cycle e g s) = (sensor_data s)\<lparr>gps := gps (sensor_data (gps_cycle e g s))\<rparr>
   \<and> scale_z_gyro (gps_cycle e g s) = scale_z_gyro s
   \<and> temperature_10_local (gps_cycle e g s) = temperature_10_local s
   \<and> last_height (gps_cycle e g s) = last_height s
   \<and> dt_since_last_height (gps_cycle e g s) = dt_since_last_height s
   \<and> low_update_counter (gps_cycle e g s) = low_update_counter s
   \<and> sensors_task_deleted (gps_cycle e g s) = sensors_task_deleted s"
proof -
  have "sensor_data (gps_cycle e g s) = (sensor_data s)\<lparr>gps := gps (sensor_data (gps_cycle e g s))\<rparr>"
    by (rule erase_gps) simp
  then show ?thesis
    using run_sensors_gps [of e ins s] by simp
qed

subsection \<open>Scaling\<close>

text \<open>
  C7, as the code has it. \<^verbatim>\<open>scale_raw_sensor_data\<close> computes in \<^verbatim>\<open>float\<close>. An acceleration
  is the sample less its neutral value over 6600, with the sign reversed for the z axis; the
  difference and the quotient are each rounded. A rate of turn is the rounded difference
  times a factor, rounded: \<open>7551043 / 2 ^ 34\<close> for the x axis, \<open>15222023 / 2 ^ 35\<close> for the
  y axis and the global \<^verbatim>\<open>scale_z_gyro\<close> for the z axis. What it stores depends on the six
  samples, the six neutral values and \<^verbatim>\<open>scale_z_gyro\<close> only. \<^verbatim>\<open>sensors_task\<close> gives
  \<^verbatim>\<open>scale_z_gyro\<close> its value once, before its loop, by the generation of the board, and
  no pass of either task changes it; but the task has scaled a first sample before that, and
  with \<^verbatim>\<open>scale_z_gyro\<close> still at the 0 it is declared with the rate of turn about the z axis
  of that sample is 0.
\<close>

theorem scaling_in_single_precision:
  "acc_x (sensor_data (scale_raw_sensor_data e s)) =
     spec_scaled 1 (int_to_float (acc_x_raw (sensor_data s))) (acc_x_neutral (sensors (config e))) 6600
   \<and> acc_y (sensor_data (scale_raw_sensor_data e s)) =
     spec_scaled 1 (int_to_float (acc_y_raw (sensor_data s))) (acc_y_neutral (sensors (config e))) 6600
   \<and> acc_z (sensor_data (scale_raw_sensor_data e s)) =
     spec_scaled (- 1) (int_to_float (acc_z_raw (sensor_data s))) (acc_z_neutral (sensors (config e))) 6600
   \<and> p (sensor_data (scale_raw_sensor_data e s)) =
     fmul (fsub (int_to_float (gyro_x_raw (sensor_data s))) (gyro_x_neutral (sensors (config e))))
       (7551043 / 17179869184)
   \<and> q (sensor_data (scale_raw_sensor_data e s)) =
     fmul (fsub (int_to_float (gyro_y_raw (sensor_data s))) (gyro_y_neutral (sensors (config e))))
       (15222023 / 34359738368)
   \<and> r (sensor_data (scale_raw_sensor_data e s)) =
     fmul (fsub (int_to_float (gyro_z_raw (sensor_data s))) (gyro_z_neutral (sensors (config e))))
       (scale_z_gyro s)
   \<and> (acc_x_raw (sensor_data s') = acc_x_raw (sensor_data s)
        \<and> acc_y_raw (sensor_data s') = acc_y_raw (sensor_data s)
        \<and> acc_z_raw (sensor_data s') = acc_z_raw (sensor_data s)
        \<and> gyro_x_raw (sensor_data s') = gyro_x_raw (sensor_data s)
        \<and> gyro_y_raw (sensor_data s') = gyro_y_raw (sensor_data s)
        \<and> gyro_z_raw (sensor_data s') = gyro_z_raw (sensor_data s)
        \<and> sensors (config e') = sensors (config e)
        \<and> scale_z_gyro s' = scale_z_gyro s
      \<longrightarrow> acc_x (sensor_data (scale_raw_sensor_data e' s')) =
            acc_x (sensor_data (scale_raw_sensor_data e s))
          \<and> acc_y (sensor_data (scale_raw_sensor_data e' s')) =
            acc_y (sensor_data (scale_raw_sensor_data e s))
          \<and> acc_z (sensor_data (scale_raw_sensor_data e' s')) =
            acc_z (sensor_data (scale_raw_sensor_data e s))
          \<and> p (sensor_data (scale_raw_sensor_data e' s')) =
            p (sensor_data (scale_raw_sensor_data e s))
          \<and> q (sensor_data (scale_raw_sensor_data e' s')) =
            q (sensor_data (scale_raw_sensor_data e s))
          \<and> r (sensor_data (scale_raw_sensor_data e' s')) =
            r (sensor_data (scale_raw_sensor_data e s)))
   \<and> scale_z_gyro (run e xs (sensors_task_init e inp s0)) =
       (if HARDWARE_VERSION e \<ge> V01N then - (15222023 / 17179869184)
        else 14940919 / 137438953472)
   \<and> (scale_z_gyro s0 = 0 \<longrightarrow> r (sensor_data (sensors_task_init e inp s0)) = 0)"
proof -
  have formulas:
    "acc_x (sensor_data (scale_raw_sensor_data e s)) =
       spec_scaled 1 (int_to_float (acc_x_raw (sensor_data s))) (acc_x_neutral (sensors (config e))) 6600"
    "acc_y (sensor_data (scale_raw_sensor_data e s)) =
       spec_scaled 1 (int_to_float (acc_y_raw (sensor_data s))) (acc_y_neutral (sensors (config e))) 6600"
    "acc_z (sensor_data (scale_raw_sensor_data e s)) =
       spec_scaled (- 1) (int_to_float (acc_z_raw (sensor_data s))) (acc_z_neutral (sensors (config e))) 6600"
    by (simp_all add: scale_raw_sensor_data_scaled spec_scaled_def)
  have same: "acc_x (sensor_data (scale_raw_sensor_data e' s')) =
            acc_x (sensor_data (scale_raw_sensor_data e s))
          \<and> acc_y (sensor_data (scale_raw_sensor_data e' s')) =
            acc_y (sensor_data (scale_raw_sensor_data e s))
          \<and> acc_z (sensor_data (scale_raw_sensor_data e' s')) =
            acc_z (sensor_data (scale_raw_sensor_data e s))
          \<and> p (sensor_data (scale_raw_sensor_data e' s')) =
            p (sensor_data (scale_raw_sensor_data e s))
          \<and> q (sensor_data (scale_raw_sensor_data e' s')) =
            q (sensor_data (scale_raw_sensor_data e s))
          \<and> r (sensor_data (scale_raw_sensor_data e' s')) =
            r (sensor_data (scale_raw_sensor_data e s))"
    if "acc_x_raw (sensor_data s') = acc_x_raw (sensor_data s)"
      and "acc_y_raw (sensor_data s') = acc_y_raw (sensor_data s)"
      and "acc_z_raw (sensor_data s') = acc_z_raw (sensor_data s)"
      and "gyro_x_raw (sensor_data s') = gyro_x_raw (sensor_data s)"
      and "gyro_y_raw (sensor_data s') = gyro_y_raw (sensor_data s)"
      and "gyro_z_raw (sensor_data s') = gyro_z_raw (sensor_data s)"
      and "sensors (config e') = sensors (config e)"
      and "scale_z_gyro s' = scale_z_gyro s"
    using that by (simp add: scale_raw_sensor_data_scaled)
  have chosen: "scale_z_gyro (run e xs (sensors_task_init e inp s0)) =
       (if HARDWARE_VERSION e \<ge> V01N then - (15222023 / 17179869184)
        else 14940919 / 137438953472)"
    by (simp add: sensors_task_init_fields(1))
  have first: "r (sensor_data (sensors_task_init e inp s0)) = 0" if "scale_z_gyro s0 = 0"
    using that by (simp add: sensors_task_init_fields(3) scale_raw_sensor_data_scaled(6))
  from formulas scale_raw_sensor_data_scaled(4,5,6) same chosen first show ?thesis
    by blast
qed

theorem scaling_in_single_precision_witness:
  "p (sensor_data (scale_raw_sensor_data (fixed_wing V01J)
        (sensors_task_begin (fixed_wing V01J) turning boot))) = 7551043 / 17179869184
   \<and> r (sensor_data (scale_raw_sensor_data (fixed_wing V01N)
          (sensors_task_begin (fixed_wing V01N) turning level))) =
       r (sensor_data (scale_raw_sensor_data (fixed_wing V01J)
          (sensors_task_begin (fixed_wing V01J) turning boot)))
   \<and> scale_z_gyro (run (fixed_wing V01J) [SensorsPass turning]
        (sensors_task_init (fixed_wing V01J) turning boot)) = 14940919 / 137438953472
   \<and> scale_z_gyro boot = 0
   \<and> r (sensor_data (sensors_task_init (fixed_wing V01J) turning boot)) = 0"
proof -
  let ?e = "fixed_wing V01J"
  let ?s = "sensors_task_begin ?e turning boot"
  let ?e' = "fixed_wing V01N"
  let ?s' = "sensors_task_begin ?e' turning level"
  note fact = scaling_in_single_precision
    [of ?e ?s ?s' ?e' "[SensorsPass turning]" turning boot]
  have raw: "acc_x_raw (sensor_data ?s') = acc_x_raw (sensor_data ?s)"
    "acc_y_raw (sensor_data ?s') = acc_y_raw (sensor_data ?s)"
    "acc_z_raw (sensor_data ?s') = acc_z_raw (sensor_data ?s)"
    "gyro_x_raw (sensor_data ?s') = gyro_x_raw (sensor_data ?s)"
    "gyro_y_raw (sensor_data ?s') = gyro_y_raw (sensor_data ?s)"
    "gyro_z_raw (sensor_data ?s') = gyro_z_raw (sensor_data ?s)"
    by (simp_all add: sensors_task_begin_def read_raw_sensor_data_def Let_def)
  have rest: "sensors (config ?e') = sensors (config ?e)" "scale_z_gyro ?s' = scale_z_gyro ?s"
    "scale_z_gyro boot = 0" "\<not> V01N \<le> HARDWARE_VERSION ?e"
    by (simp_all add: concrete concrete_inputs)
  have sample: "gyro_x_raw (sensor_data ?s) = 1" "gyro_x_neutral (sensors (config ?e)) = 0"
    by (simp_all add: sensors_task_begin_def read_raw_sensor_data_def Let_def turning_def concrete)
  have "fmul (fsub (int_to_float 1) 0) (7551043 / 17179869184) = 7551043 / 17179869184"
    by (simp add: float_ops) (simp add: f32_eval)
  with fact raw rest sample show ?thesis
    by simp
qed

text \<open>
  Two calls with the same samples and the same configuration that store different rates of
  turn about the z axis: the call before the loop, and the call of the first pass through the
  loop, each with the sample 1000 and the neutral value 0 on the oldest board. The first
  stores 0, the second \<open>14590741 / 2 ^ 27\<close>. And a result that the rounding moves: for the
  sample 1 of the x axis the rate stored is \<open>7551043 / 2 ^ 34\<close>, which is not the product of
  the constants of the source.
\<close>

theorem scaling_differs_counterexample:
  "gyro_z_raw (sensor_data (sensors_task_begin (fixed_wing V01J) turning boot)) = 1000
   \<and> r (sensor_data (scale_raw_sensor_data (fixed_wing V01J)
          (sensors_task_begin (fixed_wing V01J) turning boot))) = 0
   \<and> gyro_z_raw (sensor_data (sample_and_scale (fixed_wing V01J) turning
          (sensors_task_init (fixed_wing V01J) turning boot))) = 1000
   \<and> r (sensor_data (sample_and_scale (fixed_wing V01J) turning
          (sensors_task_init (fixed_wing V01J) turning boot))) = 14590741 / 134217728
   \<and> p (sensor_data (sample_and_scale (fixed_wing V01J) turning
          (sensors_task_init (fixed_wing V01J) turning boot))) = 7551043 / 17179869184
   \<and> (7551043 / 17179869184 :: real) \<noteq> 1 * (1 - 0) * (0.02518315 * 3.14159 / 180)"
proof -
  let ?e = "fixed_wing V01J"
  have first: "gyro_z_raw (sensor_data (sensors_task_begin ?e turning boot)) = 1000"
    "r (sensor_data (scale_raw_sensor_data ?e (sensors_task_begin ?e turning boot))) = 0"
    by (simp_all add: scale_raw_sensor_data_scaled(6) turning_def concrete)
  have products:
    "fmul (fsub (int_to_float 1000) 0) (14940919 / 137438953472) = 14590741 / 134217728"
    "fmul (fsub (int_to_float 1) 0) (7551043 / 17179869184) = 7551043 / 17179869184"
    by (simp_all add: float_ops) (simp_all add: f32_eval)
  have sample: "adc_get_channel turning 4 = 1" "adc_get_channel turning 5 = 1000"
    "gyro_z_neutral (sensors (config ?e)) = 0" "gyro_x_neutral (sensors (config ?e)) = 0"
    "scale_z_gyro (sensors_task_init ?e turning boot) = 14940919 / 137438953472"
    by (simp_all add: sensors_task_init_fields(1) turning_def concrete)
  have second: "gyro_z_raw (sensor_data (sample_and_scale ?e turning (sensors_task_init ?e turning boot))) = 1000"
    "r (sensor_data (sample_and_scale ?e turning (sensors_task_init ?e turning boot))) = 14590741 / 134217728"
    "p (sensor_data (sample_and_scale ?e turning (sensors_task_init ?e turning boot))) = 7551043 / 17179869184"
    unfolding sample_and_scale_rates sample products by simp_all
  have "(7551043 / 17179869184 :: real) \<noteq> 1 * (1 - 0) * (0.02518315 * 3.14159 / 180)"
    by simp
  with first second show ?thesis
    by simp
qed

subsection \<open>The simulation flag\<close>




subsection \<open>The two phases of the BMP085\<close>

text \<open>
  C8 does not hold of the code. In the fixed-wing build the counter runs through the
  multiples of 5 up to 65000 and is then reset to 0. Both 65000 and 0 are multiples of 50 with
  an even quotient, so the pass that brings the counter to 65000 and the very next pass both
  read a temperature and start a pressure conversion: the second of them reads a temperature
  where a pressure conversion has just been started. The passes are those numbered 13000 and
  13001 after the start of the loop, and every 13001 passes from then on.
\<close>

theorem counter_reset_repeats_temperature_phase:
  assumes "HARDWARE_VERSION e \<ge> V01O" and "\<not> macro_defined (ENABLE_QUADROCOPTER e)"
    and "\<not> sensors_task_deleted start" and "low_update_counter start = 0"
    and "\<forall>i \<in> set ins. \<not> simulation_mode i" and "length ins = 12999"
    and "s = run e (map SensorsPass ins) start"
    and "\<not> simulation_mode a" and "\<not> simulation_mode b"
  shows "low_update_counter (sensors_tick e a s) = 65000
         \<and> bmp085_calls (events_of s (sensors_tick e a s)) =
             [Bmp085ReadTemp, Bmp085StartConvertPressure]
         \<and> low_update_counter (sensors_tick e b (sensors_tick e a s)) = 0
         \<and> bmp085_calls (events_of (sensors_tick e a s) (sensors_tick e b (sensors_tick e a s))) =
             [Bmp085ReadTemp, Bmp085StartConvertPressure]"
proof -
  have "\<not> sensors_task_deleted s \<and> low_update_counter s = 5 * ((0 + length ins) mod 13001)"
    unfolding assms(7) using assms(2,3) _ _ assms(5)
    by (rule fixed_wing_counter) (simp_all add: assms(4))
  then have alive: "\<not> sensors_task_deleted s" and count: "low_update_counter s = 5 * 12999"
    by (simp_all add: assms(6))
  have after: "counter_after e s = 65000"
    using counter_after_fixed_wing [OF assms(2) count] by simp
  have alive': "\<not> sensors_task_deleted (sensors_tick e a s)"
    using alive assms(8) by (simp add: sensors_tick_deleted_iff)
  have count': "low_update_counter (sensors_tick e a s) = 5 * 13000"
    using alive after by (simp add: sensors_tick_counter)
  have after': "counter_after e (sensors_tick e a s) = 0"
    using counter_after_fixed_wing [OF assms(2) count'] by simp
  have "bmp085_calls (events_of s (sensors_tick e a s)) =
      [Bmp085ReadTemp, Bmp085StartConvertPressure]"
    using low_rate_tick_bmp085_calls [OF alive assms(1) _ assms(8)] by (simp add: after)
  moreover have "bmp085_calls (events_of (sensors_tick e a s) (sensors_tick e b (sensors_tick e a s))) =
      [Bmp085ReadTemp, Bmp085StartConvertPressure]"
    using low_rate_tick_bmp085_calls [OF alive' assms(1) _ assms(9)] by (simp add: after')
  moreover have "low_update_counter (sensors_tick e b (sensors_tick e a s)) = 0"
    using alive' after' by (simp add: sensors_tick_counter)
  ultimately show ?thesis
    using count' by simp
qed

theorem counter_reset_repeats_temperature_phase_witness:
  "low_update_counter (sensors_tick (fixed_wing V01O) idle
      (run (fixed_wing V01O) (map SensorsPass (replicate 12999 idle)) boot)) = 65000
   \<and> bmp085_calls (events_of
        (run (fixed_wing V01O) (map SensorsPass (replicate 12999 idle)) boot)
        (sensors_tick (fixed_wing V01O) idle
           (run (fixed_wing V01O) (map SensorsPass (replicate 12999 idle)) boot))) =
       [Bmp085ReadTemp, Bmp085StartConvertPressure]
   \<and> low_update_counter (sensors_tick (fixed_wing V01O) idle (sensors_tick (fixed_wing V01O) idle
      (run (fixed_wing V01O) (map SensorsPass (replicate 12999 idle)) boot))) = 0
   \<and> bmp085_calls (events_of
        (sensors_tick (fixed_wing V01O) idle
           (run (fixed_wing V01O) (map SensorsPass (replicate 12999 idle)) boot))
        (sensors_tick (fixed_wing V01O) idle (sensors_tick (fixed_wing V01O) idle
           (run (fixed_wing V01O) (map SensorsPass (replicate 12999 idle)) boot)))) =
       [Bmp085ReadTemp, Bmp085StartConvertPressure]"
proof -
  have board: "HARDWARE_VERSION (fixed_wing V01O) \<ge> V01O"
    and build: "\<not> macro_defined (ENABLE_QUADROCOPTER (fixed_wing V01O))"
    and alive: "\<not> sensors_task_deleted boot" and zero: "low_update_counter boot = 0"
    and flags: "\<forall>i \<in> set (replicate 12999 idle). \<not> simulation_mode i"
    and ticks: "length (replicate 12999 idle) = 12999"
    and flag: "\<not> simulation_mode idle"
    by (simp_all add: fixed_wing_def macro_defined_def boot_def idle_def)
  show ?thesis
    by (rule counter_reset_repeats_temperature_phase
          [OF board build alive zero flags ticks refl flag flag])
qed

subsection \<open>The SCP1000 on the older boards\<close>

text \<open>
  C5, as the code has it. In a pass in which the SCP1000 has a reading, the height computed
  from the pressure and temperature (those just read when the bus was free, the stored ones
  otherwise) is stored when it lies strictly between -30000 and 30000, and the stored height
  is kept otherwise; a height of exactly -30000 or 30000 is not stored. So a height of 31000
  leaves \<^verbatim>\<open>pressure_height\<close> as it was and a height of 100 sets it to 100.
\<close>

theorem height_gate_is_strict:
  assumes "\<not> sensors_task_deleted s" and "counter_after e s mod 50 \<noteq> 0"
    and "HARDWARE_VERSION e < V01O" and "scp1000_dataready inp"
    and "h = scp1000_pressure_to_height e
               (if spi_semaphore_take inp then scp1000_get_pressure inp
                else pressure (sensor_data s))
               (if spi_semaphore_take inp then scp1000_get_temperature inp
                else temperature (sensor_data s))"
  shows "pressure_height (sensor_data (sensors_tick e inp s)) =
           (if - 30000 < h \<and> h < 30000 then h else pressure_height (sensor_data s))
         \<and> (h = 31000 \<longrightarrow>
              pressure_height (sensor_data (sensors_tick e inp s)) = pressure_height (sensor_data s))
         \<and> (h = 100 \<longrightarrow> pressure_height (sensor_data (sensors_tick e inp s)) = 100)"
proof -
  have tick: "sensors_tick e inp s =
      ahrs_step e (magnetometer_step e inp
        (scp1000_update e inp (emit [Scp1000DataReady] (sample_and_scale e inp s))))"
    using assms(1-4) by (rule sensors_tick_scp1000)
  have "pressure_height (sensor_data (sensors_tick e inp s)) =
          (if - 30000 < h \<and> h < 30000 then h else pressure_height (sensor_data s))"
  proof (cases "spi_semaphore_take inp")
    case True
    with assms(5) show ?thesis by (simp add: tick)
  next
    case False
    with assms(5) show ?thesis by (simp add: tick)
  qed
  then show ?thesis by simp
qed

theorem height_gate_is_strict_witness:
  "pressure_height (sensor_data (sensors_tick (fixed_wing V01J)
       (idle\<lparr>scp1000_dataready := True, spi_semaphore_take := True, scp1000_get_pressure := 100\<rparr>)
       (boot\<lparr>sensor_data := boot_sensor_data\<lparr>pressure_height := 7\<rparr>\<rparr>))) = 100
   \<and> pressure_height (sensor_data (sensors_tick (fixed_wing V01J)
       (idle\<lparr>scp1000_dataready := True, spi_semaphore_take := True, scp1000_get_pressure := 31000\<rparr>)
       (boot\<lparr>sensor_data := boot_sensor_data\<lparr>pressure_height := 7\<rparr>\<rparr>))) = 7"
  using height_gate_is_strict
          [of "boot\<lparr>sensor_data := boot_sensor_data\<lparr>pressure_height := 7\<rparr>\<rparr>" "fixed_wing V01J"
              "idle\<lparr>scp1000_dataready := True, spi_semaphore_take := True, scp1000_get_pressure := 100\<rparr>"
              100]
        height_gate_is_strict
          [of "boot\<lparr>sensor_data := boot_sensor_data\<lparr>pressure_height := 7\<rparr>\<rparr>" "fixed_wing V01J"
              "idle\<lparr>scp1000_dataready := True, spi_semaphore_take := True, scp1000_get_pressure := 31000\<rparr>"
              31000]
  by (simp add: concrete)

text \<open>
  A height of 30000 lies in the closed range from -30000 to 30000 and is discarded.
\<close>

theorem height_gate_boundary_counterexample:
  "(30000 :: real) \<in> {- 30000 .. 30000}
   \<and> scp1000_pressure_to_height (fixed_wing V01J) 30000 0 = 30000
   \<and> pressure_height (sensor_data (sensors_tick (fixed_wing V01J)
       (idle\<lparr>scp1000_dataready := True, spi_semaphore_take := True, scp1000_get_pressure := 30000\<rparr>)
       (boot\<lparr>sensor_data := boot_sensor_data\<lparr>pressure_height := 7\<rparr>\<rparr>))) = 7"
proof -
  have "sensors_tick (fixed_wing V01J)
       (idle\<lparr>scp1000_dataready := True, spi_semaphore_take := True, scp1000_get_pressure := 30000\<rparr>)
       (boot\<lparr>sensor_data := boot_sensor_data\<lparr>pressure_height := 7\<rparr>\<rparr>) =
     ahrs_step (fixed_wing V01J) (magnetometer_step (fixed_wing V01J)
       (idle\<lparr>scp1000_dataready := True, spi_semaphore_take := True, scp1000_get_pressure := 30000\<rparr>)
       (scp1000_update (fixed_wing V01J)
          (idle\<lparr>scp1000_dataready := True, spi_semaphore_take := True, scp1000_get_pressure := 30000\<rparr>)
          (emit [Scp1000DataReady] (sample_and_scale (fixed_wing V01J)
             (idle\<lparr>scp1000_dataready := True, spi_semaphore_take := True, scp1000_get_pressure := 30000\<rparr>)
             (boot\<lparr>sensor_data := boot_sensor_data\<lparr>pressure_height := 7\<rparr>\<rparr>)))))"
    by (rule sensors_tick_scp1000) (simp_all add: concrete)
  then show ?thesis
    by (simp add: concrete)
qed

text \<open>
  C10. In a pass on an older board in which the SCP1000 has a reading and the bus is taken,
  pressure and temperature stay as they were, the height is computed again from them and
  passes the gate of line 170, the vertical speed is smoothed (in \<^verbatim>\<open>float\<close> arithmetic) over
  the time since the last such pass and checked against the larger of 5 and the GPS speed,
  \<^verbatim>\<open>last_height\<close> becomes the stored height and \<^verbatim>\<open>dt_since_last_height\<close> becomes 0.
\<close>

theorem contention_still_updates_vertical_speed:
  assumes "\<not> sensors_task_deleted s" and "counter_after e s mod 50 \<noteq> 0"
    and "HARDWARE_VERSION e < V01O" and "scp1000_dataready inp"
    and "\<not> spi_semaphore_take inp"
    and "h = scp1000_pressure_to_height e (pressure (sensor_data s)) (temperature (sensor_data s))"
    and "ph = (if - 30000 < h \<and> h < 30000 then h else pressure_height (sensor_data s))"
    and "v = fadd (fmul (vertical_speed (sensor_data s)) (f32 0.8))
               (fmul (fdiv (fsub ph (last_height s))
                        (fadd (dt_since_last_height s) (tick_seconds e)))
                  (f32 0.2))"
  shows "pressure (sensor_data (sensors_tick e inp s)) = pressure (sensor_data s)
         \<and> temperature (sensor_data (sensors_tick e inp s)) = temperature (sensor_data s)
         \<and> pressure_height (sensor_data (sensors_tick e inp s)) = ph
         \<and> vertical_speed (sensor_data (sensors_tick e inp s)) =
             (if \<bar>v\<bar> > max 5 (speed_ms (gps (sensor_data s))) then 0 else v)
         \<and> last_height (sensors_tick e inp s) = ph
         \<and> dt_since_last_height (sensors_tick e inp s) = 0"
proof -
  have tick: "sensors_tick e inp s =
      ahrs_step e (magnetometer_step e inp
        (scp1000_update e inp (emit [Scp1000DataReady] (sample_and_scale e inp s))))"
    using assms(1-4) by (rule sensors_tick_scp1000)
  have ph: "pressure_height (sensor_data (sensors_tick e inp s)) = ph"
    using assms(5-7) by (simp add: tick)
  have lh: "last_height (sensors_tick e inp s) = ph"
    using assms(5-7) by (simp add: tick)
  have gate: "pressure_height (sensor_data
        (height_gate e (scp1000_acquire inp (emit [Scp1000DataReady] (sample_and_scale e inp s))))) = ph"
    using assms(5-7) by simp
  have "vertical_speed (sensor_data (sensors_tick e inp s)) =
      (if \<bar>v\<bar> > max 5 (speed_ms (gps (sensor_data s))) then 0 else v)"
    unfolding tick scp1000_update_def
    using assms(8) gate by (simp del: height_gate_fields(12))
  moreover have "pressure (sensor_data (sensors_tick e inp s)) = pressure (sensor_data s)"
    and "temperature (sensor_data (sensors_tick e inp s)) = temperature (sensor_data s)"
    and "dt_since_last_height (sensors_tick e inp s) = 0"
    using assms(5) by (simp_all add: tick)
  ultimately show ?thesis
    using ph lh by simp
qed

theorem contention_still_updates_vertical_speed_witness:
  "pressure (sensor_data (sensors_tick (fixed_wing V01J) busy level)) = 100
   \<and> pressure_height (sensor_data (sensors_tick (fixed_wing V01J) busy level)) = 100
   \<and> vertical_speed (sensor_data level) = 1
   \<and> vertical_speed (sensor_data (sensors_tick (fixed_wing V01J) busy level)) =
       13421773 / 16777216
   \<and> last_height (sensors_tick (fixed_wing V01J) busy level) = 100
   \<and> dt_since_last_height level = 0.125
   \<and> dt_since_last_height (sensors_tick (fixed_wing V01J) busy level) = 0"
proof -
  have alive: "\<not> sensors_task_deleted level"
    and high: "counter_after (fixed_wing V01J) level mod 50 \<noteq> 0"
    and board: "HARDWARE_VERSION (fixed_wing V01J) < V01O"
    and ready: "scp1000_dataready busy" and taken: "\<not> spi_semaphore_take busy"
    by (simp_all add: concrete concrete_inputs)
  note fact = contention_still_updates_vertical_speed [OF alive high board ready taken refl refl refl]
  have "vertical_speed (sensor_data level) = 1" and "dt_since_last_height level = 0.125"
    by (simp_all add: concrete concrete_inputs)
  with fact show ?thesis
    by (simp add: concrete concrete_inputs tick_seconds_def float_ops) (simp add: f32_eval)
qed







subsection \<open>The GPS task\<close>

text \<open>
  C6, as the code has it. A pass of \<^verbatim>\<open>sensors_gps_task\<close> waits up to 205 ms for a sentence.
  If none arrives, the pass ends with status \<open>EMPTY\<close>, no satellite in view and the sequence
  counter at 0; it switches the LED off and never on. If one arrives, the pass stores what
  \<^verbatim>\<open>gps_update_info\<close> makes of the fix (with the cruising speed in place of the speed when
  fewer than four satellites are in view in the air) and counts the sequence counter up by
  one, except at 32767, the largest value of the 16-bit \<^verbatim>\<open>int\<close> of the target, from where
  the counter goes to -32768.
\<close>

theorem gps_cycle_timeout_or_fix:
  assumes "- 32768 \<le> gps_i s" and "gps_i s \<le> 32767"
  shows "if gps_semaphore_take inp
         then gps (sensor_data (gps_cycle e inp s)) =
                (gps_update_info inp (gps (sensor_data s)))
                  \<lparr>speed_ms :=
                     (if satellites_in_view (gps_update_info inp (gps (sensor_data s))) < 4
                         \<and> airborne inp
                      then cruising_speed_ms (control (config e))
                      else speed_ms (gps_update_info inp (gps (sensor_data s))))\<rparr>
              \<and> gps_i (gps_cycle e inp s) = (if gps_i s = 32767 then - 32768 else gps_i s + 1)
              \<and> take 2 (events_of s (gps_cycle e inp s)) = [GpsSemaphoreTake 205, GpsUpdateInfo]
         else status (gps (sensor_data (gps_cycle e inp s))) = EMPTY
              \<and> satellites_in_view (gps (sensor_data (gps_cycle e inp s))) = 0
              \<and> gps_i (gps_cycle e inp s) = 0
              \<and> events_of s (gps_cycle e inp s) = [GpsSemaphoreTake 205, Led2Off, GluonscriptDo]"
proof (cases "gps_semaphore_take inp")
  case True
  have "gps_i (gps_cycle e inp s) = (if gps_i s = 32767 then - 32768 else gps_i s + 1)"
    using True assms by (simp add: wrap_s16_succ)
  moreover have "take 2 (events_of s (gps_cycle e inp s)) = [GpsSemaphoreTake 205, GpsUpdateInfo]"
    using True by (simp add: events_of_def gps_cycle_trace gps_led_trace)
  moreover have "gps (sensor_data (gps_cycle e inp s)) =
      (gps_update_info inp (gps (sensor_data s)))
        \<lparr>speed_ms :=
           (if satellites_in_view (gps_update_info inp (gps (sensor_data s))) < 4 \<and> airborne inp
            then cruising_speed_ms (control (config e))
            else speed_ms (gps_update_info inp (gps (sensor_data s))))\<rparr>"
    using True by (simp add: gps_cycle_gps gps_fallback_speed_gps)
  ultimately show ?thesis using True by simp
next
  case False
  have "events_of s (gps_cycle e inp s) = [GpsSemaphoreTake 205, Led2Off, GluonscriptDo]"
    using False
    by (simp add: events_of_def gps_cycle_trace gps_led_trace gps_fallback_speed_gps c_rem_def)
  moreover have "status (gps (sensor_data (gps_cycle e inp s))) = EMPTY"
    and "satellites_in_view (gps (sensor_data (gps_cycle e inp s))) = 0"
    using False by (simp_all add: gps_cycle_gps gps_fallback_speed_gps)
  ultimately show ?thesis using False by simp
qed

theorem gps_cycle_timeout_or_fix_witness:
  "gps_i (gps_cycle (fixed_wing V01J) no_fix (boot\<lparr>gps_i := 1280\<rparr>)) = 0
   \<and> status (gps (sensor_data (gps_cycle (fixed_wing V01J) no_fix (boot\<lparr>gps_i := 1280\<rparr>)))) = EMPTY
   \<and> events_of (boot\<lparr>gps_i := 1280\<rparr>) (gps_cycle (fixed_wing V01J) no_fix (boot\<lparr>gps_i := 1280\<rparr>))
       = [GpsSemaphoreTake 205, Led2Off, GluonscriptDo]
   \<and> gps_i (gps_cycle (fixed_wing V01J) good_fix (boot\<lparr>gps_i := 1280\<rparr>)) = 1281
   \<and> gps (sensor_data (gps_cycle (fixed_wing V01J) good_fix (boot\<lparr>gps_i := 1280\<rparr>)))
       = \<lparr>status = ACTIVE, latitude_rad = 0, longitude_rad = 0, speed_ms = 15,
          satellites_in_view = 7\<rparr>
   \<and> gps_i (gps_cycle (fixed_wing V01J) good_fix (boot\<lparr>gps_i := 32767\<rparr>)) = - 32768"
  using gps_cycle_timeout_or_fix [of "boot\<lparr>gps_i := 1280\<rparr>" no_fix "fixed_wing V01J"]
        gps_cycle_timeout_or_fix [of "boot\<lparr>gps_i := 1280\<rparr>" good_fix "fixed_wing V01J"]
        gps_cycle_timeout_or_fix [of "boot\<lparr>gps_i := 32767\<rparr>" good_fix "fixed_wing V01J"]
  by (simp add: no_fix_def good_fix_def boot_def boot_sensor_data_def boot_gps_def)

text \<open>
  A pass in which a sentence arrives and the sequence counter is not counted up. The task
  enters its loop with the counter at 1280, whatever the receiver did before; after 31487
  passes with a sentence in each the counter is 32767, and the next pass with a sentence
  leaves it at -32768.
\<close>

theorem gps_counter_overflow_counterexample:
  "gps_semaphore_take good_fix
   \<and> (case gps_task_init (\<lambda>i. True) boot of
        None \<Rightarrow> False
      | Some s0 \<Rightarrow>
          gps_i s0 = 1280
          \<and> gps_i (run (fixed_wing V01J) (replicate 31487 (GpsPass good_fix)) s0) = 32767
          \<and> gps_i (gps_cycle (fixed_wing V01J) good_fix
                     (run (fixed_wing V01J) (replicate 31487 (GpsPass good_fix)) s0)) = - 32768)"
proof -
  obtain s0 where init: "gps_task_init (\<lambda>i. True) boot = Some s0" and start: "gps_i s0 = 1280"
    using gps_task_init_returns by blast
  have arrives: "gps_semaphore_take good_fix"
    by (simp add: good_fix_def)
  have "gps_i (run (fixed_wing V01J) (replicate 31487 (GpsPass good_fix)) s0) = gps_i s0 + int 31487"
    using arrives by (rule gps_run_counts) (simp_all add: start)
  then have top: "gps_i (run (fixed_wing V01J) (replicate 31487 (GpsPass good_fix)) s0) = 32767"
    by (simp add: start)
  have "gps_i (gps_cycle (fixed_wing V01J) good_fix
                 (run (fixed_wing V01J) (replicate 31487 (GpsPass good_fix)) s0)) = - 32768"
    using arrives by (simp add: top wrap_s16_def)
  with init start top arrives show ?thesis
    by simp
qed

text \<open>
  C9, as the code has it. \<^verbatim>\<open>gluonscript_do\<close> is called in a pass exactly when the sequence
  counter is even at the end of the pass. After a sentence that is when the counter was odd
  before, so on every second pass of a row of sentences; without a sentence the counter has
  been reset to 0 and the call is made in every such pass.
\<close>

theorem hook_runs_when_counter_even:
  "(GluonscriptDo \<in> set (events_of s (gps_cycle e inp s))) = even (gps_i (gps_cycle e inp s))
   \<and> even (gps_i (gps_cycle e inp s)) = (if gps_semaphore_take inp then odd (gps_i s) else True)"
  by (simp add: events_of_def gps_cycle_trace gps_led_trace c_rem_2)

theorem hook_runs_when_counter_even_witness:
  "GluonscriptDo \<in> set (events_of boot (gps_cycle (fixed_wing V01J) no_fix boot))
   \<and> GluonscriptDo \<notin> set (events_of boot (gps_cycle (fixed_wing V01J) good_fix boot))"
  using hook_runs_when_counter_even [of boot "fixed_wing V01J" no_fix]
        hook_runs_when_counter_even [of boot "fixed_wing V01J" good_fix]
  by (simp add: no_fix_def good_fix_def boot_def)

text \<open>
  The call is not tied to a sentence: a pass that times out makes it too.
\<close>

theorem hook_on_timeout_counterexample:
  "\<not> gps_semaphore_take no_fix
   \<and> events_of boot (gps_cycle (fixed_wing V01J) no_fix boot)
       = [GpsSemaphoreTake 205, Led2Off, GluonscriptDo]"
  by (simp add: events_of_def gps_cycle_trace gps_led_trace gps_fallback_speed_gps c_rem_def
        no_fix_def boot_def)

end
